theory Spec2Isabelle
  imports Complex_Main
begin

section \<open>Python values and library calls\<close>

text \<open>
  The repository is orchestration code around Keras models and numpy's random generator.
  Python integers are \<open>int\<close>, numpy float vectors are lists of \<open>real\<close> (rounding is
  not modelled; the theorems on messages, batches and logs depend on lengths, positions
  and order only), strings are \<open>string\<close>. Every exception the modelled code can raise is a value of \<open>py_error\<close>,
  and a function that can raise returns \<open>py_error + 'a\<close>.
\<close>

datatype py_error = ValueError | IndexError | AttributeError

text \<open>\<^verbatim>\<open>xs[i]\<close> on a list or a one-dimensional array: a negative index in range counts
  from the end, an index out of range raises IndexError.\<close>

definition py_getitem :: "'a list \<Rightarrow> int \<Rightarrow> py_error + 'a" where
  "py_getitem xs i =
     (if 0 \<le> i \<and> i < int (length xs) then Inr (xs ! nat i)
      else if i < 0 \<and> - int (length xs) \<le> i then Inr (xs ! nat (int (length xs) + i))
      else Inl IndexError)"

text \<open>\<^verbatim>\<open>xs[s:]\<close>: a slice never raises; its start is clipped to the list.\<close>

definition py_slice_from :: "int \<Rightarrow> 'a list \<Rightarrow> 'a list" where
  "py_slice_from s xs =
     (if s < 0 then drop (nat (int (length xs) + s)) xs else drop (nat s) xs)"

text \<open>\<^verbatim>\<open>str(n)\<close> of a non-negative integer: its decimal digits.\<close>

fun str_nat :: "nat \<Rightarrow> string" where
  "str_nat n =
     (if n < 10 then [char_of (48 + n)]
      else str_nat (n div 10) @ [char_of (48 + n mod 10)])"

declare str_nat.simps [simp del]

text \<open>\<^verbatim>\<open>"#".join(parts)\<close>.\<close>

fun join_hash :: "string list \<Rightarrow> string" where
  "join_hash [] = []"
| "join_hash [x] = x"
| "join_hash (x # y # ys) = x @ ''#'' @ join_hash (y # ys)"

text \<open>\<^verbatim>\<open>a.argsort()\<close>: the positions of \<open>a\<close> in ascending order of their values. Where
  values tie, numpy's order depends on the sorting kind; the model keeps the positions of
  equal values in ascending order. No theorem below depends on the order of ties.\<close>

definition argsort :: "real list \<Rightarrow> nat list" where
  "argsort a = sort_key (\<lambda>i. a ! i) [0..<length a]"

text \<open>\<^verbatim>\<open>np.vstack(rows)\<close> raises on an empty sequence and on rows of different
  lengths.\<close>

definition np_vstack :: "'a list list \<Rightarrow> py_error + 'a list list" where
  "np_vstack rows =
     (if rows = [] \<or> (\<exists>row \<in> set rows. length row \<noteq> length (hd rows)) then Inl ValueError
      else Inr rows)"

text \<open>Whether \<^verbatim>\<open>a.reshape([d1, d2, 1])\<close> succeeds on an array of \<open>n\<close> elements: the
  sizes must agree, and at most one dimension may be \<open>-1\<close>, which numpy then infers.\<close>

definition np_reshape_ok :: "nat \<Rightarrow> int \<Rightarrow> int \<Rightarrow> bool" where
  "np_reshape_ok n d1 d2 =
     (if d1 < - 1 \<or> d2 < - 1 then False
      else if d1 = - 1 \<and> d2 = - 1 then False
      else if d1 = - 1 then d2 \<noteq> 0 \<and> int n mod d2 = 0
      else if d2 = - 1 then d1 \<noteq> 0 \<and> int n mod d1 = 0
      else int n = d1 * d2)"

text \<open>
  The Keras model and numpy's global random generator are outside the repository. They
  are parameters of the model: \<open>'w\<close> is the state of a Keras model (its weights), \<open>'g\<close>
  the state of the random generator. Each call returns a value or raises; what it returns
  and when it raises is left open, so that every theorem holds for every behaviour of the
  libraries.
  \<^item> \<open>model_predict w x\<close> is \<^verbatim>\<open>speaker_model.predict(x, batch_size=1)[0]\<close>;
  \<^item> \<open>model_train_on_batch w X Y\<close> is the model after \<^verbatim>\<open>train_on_batch(X, Y)\<close>;
  \<^item> \<open>random_choice g n p\<close> is \<^verbatim>\<open>np.random.choice(n, 1, p=p)[0]\<close> with the next
    generator state;
  \<^item> \<open>random_randint g n\<close> is \<^verbatim>\<open>np.random.randint(n)\<close> with the next generator state.
\<close>

record ('w, 'g) backend =
  model_predict :: "'w \<Rightarrow> real list \<Rightarrow> py_error + real list"
  model_train_on_batch :: "'w \<Rightarrow> real list list \<Rightarrow> real list \<Rightarrow> py_error + 'w"
  random_choice :: "'g \<Rightarrow> nat \<Rightarrow> real list \<Rightarrow> py_error + (nat \<times> 'g)"
  random_randint :: "'g \<Rightarrow> nat \<Rightarrow> py_error + (nat \<times> 'g)"

text \<open>\<^verbatim>\<open>np.random.choice(a, 1, p=p)\<close> raises ValueError unless \<open>a\<close> is positive and
  \<open>p\<close> has \<open>a\<close> entries. Its further checks of \<open>p\<close> (no negative entry, a sum of
  1 within a tolerance) are on float values; they are part of what \<open>random_choice\<close> may
  raise.\<close>

definition np_random_choice ::
  "('w, 'g) backend \<Rightarrow> 'g \<Rightarrow> int \<Rightarrow> real list \<Rightarrow> py_error + (nat \<times> 'g)" where
  "np_random_choice ext g a p =
     (if a \<le> 0 \<or> int (length p) \<noteq> a then Inl ValueError
      else random_choice ext g (nat a) p)"

section \<open>Configuration and statistics records\<close>

text \<open>The keys of \<^verbatim>\<open>config_dict\<close> that the modelled methods read.\<close>

record config =
  max_message_length :: int
  alphabet_size :: int
  speaker_dim :: int
  batch_size :: int

text \<open>One entry of a statistics log. In \<^verbatim>\<open>IndependentFullyConnectedAgents\<close> the last
  key is \<^verbatim>\<open>chosen_target\<close> (a candidate), in \<^verbatim>\<open>BaseAgents\<close> it is
  \<^verbatim>\<open>chosen_target_idx\<close> (an index).\<close>

record ('x, 'c) stats_record =
  reward :: int
  input :: 'x
  message :: string
  chosen_target :: 'c

section \<open>The reward function\<close>

text \<open>\<^verbatim>\<open>IndependentFullyConnectedAgents.calculate_reward\<close> (networks.py): the ground truth
  is a bare index.\<close>

definition calculate_reward :: "int \<Rightarrow> int \<Rightarrow> int" where
  "calculate_reward chosen_target_idx target_candidate_idx =
     (if chosen_target_idx = target_candidate_idx then 1 else 0)"

text \<open>\<^verbatim>\<open>BaseAgents.calculate_reward\<close> (rl/agents.py): the ground truth is a one-hot
  vector, read at the chosen index; the read raises when the index is not a position of
  the vector.\<close>

definition calculate_reward_onehot :: "int \<Rightarrow> real list \<Rightarrow> py_error + int" where
  "calculate_reward_onehot chosen_target_idx target_candidate_idx =
     (case py_getitem target_candidate_idx chosen_target_idx of
        Inl e \<Rightarrow> Inl e
      | Inr v \<Rightarrow> if v = 1 then Inr 1 else Inr 0)"

section \<open>IndependentFullyConnectedAgents\<close>

text \<open>The calls the orchestrator makes, in order: a ghost field of the model, written by
  each modelled method when it returns. The training call carries its three
  arguments.\<close>

datatype call =
  Call_sample_speaker_policy_for_message
| Call_infer_from_speaker_policy
| Call_listener_policy
| Call_train_speaker_policy_on_batch "real list list" "real list list" "int list"

text \<open>The object. \<open>self_m_probs\<close>, \<open>self_r\<close>, \<open>self_X\<close> and \<open>self_Y\<close> are the
  attributes \<^verbatim>\<open>m_probs\<close>, \<^verbatim>\<open>r\<close>, \<^verbatim>\<open>X\<close> and \<^verbatim>\<open>Y\<close> that the training step
  assigns (\<^verbatim>\<open>X_\<close> holds the data of \<^verbatim>\<open>X\<close> in another shape); \<open>np_random\<close> is numpy's
  global generator; \<open>calls\<close> is the ghost call log.\<close>

record ('w, 'g) agents =
  config_dict :: config
  save_training_stats :: bool
  save_testing_stats :: bool
  training_stats :: "(real list, real list) stats_record list option"
  testing_stats :: "(real list, real list) stats_record list option"
  speaker_model :: 'w
  self_m_probs :: "real list list option"
  self_r :: "int list option"
  self_X :: "real list list option"
  self_Y :: "real list option"
  np_random :: 'g
  calls :: "call list"

text \<open>\<^verbatim>\<open>probs/np.sum(probs)\<close>. Where the sum is zero numpy yields nan or inf; the
  model's value there is that of HOL's division.\<close>

definition normalized_probs :: "real list \<Rightarrow> real list" where
  "normalized_probs probs = map (\<lambda>q. q / sum_list probs) probs"

text \<open>The loop of \<^verbatim>\<open>sample_speaker_policy_for_message\<close>: \<open>k\<close> iterations remain; the
  loop state is the message, the probabilities and the generator.\<close>

fun sample_loop ::
  "('w, 'g) backend \<Rightarrow> int \<Rightarrow> real list \<Rightarrow> nat \<Rightarrow> string \<times> real list \<times> 'g \<Rightarrow>
   py_error + (string \<times> real list \<times> 'g)" where
  "sample_loop ext asz p 0 st = Inr st"
| "sample_loop ext asz p (Suc k) (msg, message_probs, g) =
     (case np_random_choice ext g asz p of
        Inl e \<Rightarrow> Inl e
      | Inr (sampled_symbol, g') \<Rightarrow>
          (case py_getitem p (int sampled_symbol) of
             Inl e \<Rightarrow> Inl e
           | Inr q \<Rightarrow>
               sample_loop ext asz p k
                 (msg @ str_nat sampled_symbol @ ''#'', message_probs @ [q], g')))"

definition sample_speaker_policy_for_message ::
  "('w, 'g) backend \<Rightarrow> ('w, 'g) agents \<Rightarrow> real list \<Rightarrow>
   py_error + ((string \<times> real list) \<times> ('w, 'g) agents)" where
  "sample_speaker_policy_for_message ext a target_input =
     (if \<not> np_reshape_ok (length target_input) 1 (speaker_dim (config_dict a))
      then Inl ValueError
      else
        (case model_predict ext (speaker_model a) target_input of
           Inl e \<Rightarrow> Inl e
         | Inr probs \<Rightarrow>
            (case sample_loop ext (alphabet_size (config_dict a)) (normalized_probs probs)
                    (nat (max_message_length (config_dict a))) ([], [], np_random a) of
               Inl e \<Rightarrow> Inl e
             | Inr (msg, message_probs, g) \<Rightarrow>
                 Inr ((msg, message_probs),
                      a\<lparr>np_random := g,
                        calls := calls a @ [Call_sample_speaker_policy_for_message]\<rparr>))))"

text \<open>\<^verbatim>\<open>normalized_probs[0].argsort()[-self.max_message_length:][::-1]\<close>.\<close>

definition argmax_indices :: "int \<Rightarrow> real list \<Rightarrow> nat list" where
  "argmax_indices mml np = rev (py_slice_from (- mml) (argsort np))"

definition infer_from_speaker_policy ::
  "('w, 'g) backend \<Rightarrow> ('w, 'g) agents \<Rightarrow> real list \<Rightarrow>
   py_error + ((string \<times> real list) \<times> ('w, 'g) agents)" where
  "infer_from_speaker_policy ext a target_input =
     (if \<not> np_reshape_ok (length target_input) 1 (speaker_dim (config_dict a))
      then Inl ValueError
      else
        (case model_predict ext (speaker_model a) target_input of
           Inl e \<Rightarrow> Inl e
         | Inr probs \<Rightarrow>
            let np = normalized_probs probs;
                idx = argmax_indices (max_message_length (config_dict a)) np;
                message_probs = map (\<lambda>i. np ! i) idx;
                msg = join_hash (map str_nat idx)
            in Inr ((msg, message_probs),
                    a\<lparr>calls := calls a @ [Call_infer_from_speaker_policy]\<rparr>)))"

text \<open>\<^verbatim>\<open>listener_policy\<close>: \<^verbatim>\<open>np.random.randint(len(candidates))\<close>, which raises
  ValueError on an empty candidate list.\<close>

definition listener_policy ::
  "('w, 'g) backend \<Rightarrow> ('w, 'g) agents \<Rightarrow> string \<Rightarrow> real list list \<Rightarrow>
   py_error + (int \<times> ('w, 'g) agents)" where
  "listener_policy ext a msg candidates =
     (if candidates = [] then Inl ValueError
      else
        (case random_randint ext (np_random a) (length candidates) of
           Inl e \<Rightarrow> Inl e
         | Inr (chosen, g) \<Rightarrow>
             Inr (int chosen,
                  a\<lparr>np_random := g, calls := calls a @ [Call_listener_policy]\<rparr>)))"

text \<open>\<^verbatim>\<open>train_speaker_policy_on_batch\<close>. \<open>Y\<close> is, per example, the reward times the
  sum of the message probabilities; fit passes three lists of one length.\<close>

definition train_speaker_policy_on_batch ::
  "('w, 'g) backend \<Rightarrow> ('w, 'g) agents \<Rightarrow> real list list \<Rightarrow> real list list \<Rightarrow> int list \<Rightarrow>
   py_error + ('w, 'g) agents" where
  "train_speaker_policy_on_batch ext a target_inputs message_probs rewards =
     (case np_vstack message_probs of
        Inl e \<Rightarrow> Inl e
      | Inr mp \<Rightarrow>
          if rewards = [] then Inl ValueError
          else
            (case np_vstack target_inputs of
               Inl e \<Rightarrow> Inl e
             | Inr X \<Rightarrow>
                 let Y = map (\<lambda>(rw, ps). real_of_int rw * sum_list ps) (zip rewards mp)
                 in if \<not> np_reshape_ok (length (concat X)) (batch_size (config_dict a))
                          (speaker_dim (config_dict a))
                    then Inl ValueError
                    else
                      (case model_train_on_batch ext (speaker_model a) X Y of
                         Inl e \<Rightarrow> Inl e
                       | Inr w \<Rightarrow>
                           Inr (a\<lparr>self_m_probs := Some mp, self_r := Some rewards,
                                  self_X := Some X, self_Y := Some Y, speaker_model := w,
                                  calls := calls a @
                                    [Call_train_speaker_policy_on_batch target_inputs
                                       message_probs rewards]\<rparr>))))"

text \<open>The local variables of \<^verbatim>\<open>fit\<close>.\<close>

record fit_locals =
  total_reward :: int
  batch_counter :: int
  batch_training_inputs :: "real list list"
  message_probs_storage :: "real list list"
  rewards_storage :: "int list"

text \<open>The body of the loop of \<^verbatim>\<open>fit\<close> up to the test of the batch counter: one
  episode, stored for training and, when \<^verbatim>\<open>save_training_stats\<close> is set, logged.\<close>

definition fit_episode ::
  "('w, 'g) backend \<Rightarrow> ('w, 'g) agents \<times> fit_locals \<Rightarrow> real list \<times> real list list \<times> int \<Rightarrow>
   py_error + (('w, 'g) agents \<times> fit_locals)" where
  "fit_episode ext st example =
     (case (st, example) of ((a, l), (target_input, candidates, target_candidate_idx)) \<Rightarrow>
       (case sample_speaker_policy_for_message ext a target_input of
          Inl e \<Rightarrow> Inl e
        | Inr ((msg, message_probs), a1) \<Rightarrow>
           (case listener_policy ext a1 msg candidates of
              Inl e \<Rightarrow> Inl e
            | Inr (chosen_target_idx, a2) \<Rightarrow>
               let rw = calculate_reward chosen_target_idx target_candidate_idx;
                   l1 = l\<lparr>total_reward := total_reward l + rw,
                          batch_counter := batch_counter l + 1,
                          batch_training_inputs := batch_training_inputs l @ [target_input],
                          rewards_storage := rewards_storage l @ [rw],
                          message_probs_storage := message_probs_storage l @ [message_probs]\<rparr>
               in if save_training_stats a2 then
                    (case py_getitem candidates chosen_target_idx of
                       Inl e \<Rightarrow> Inl e
                     | Inr c \<Rightarrow>
                        (case training_stats a2 of
                           None \<Rightarrow> Inl AttributeError
                         | Some entries \<Rightarrow>
                             Inr (a2\<lparr>training_stats :=
                                     Some (entries @ [\<lparr>reward = rw, input = target_input,
                                                   message = msg, chosen_target = c\<rparr>])\<rparr>,
                                  l1)))
                  else Inr (a2, l1))))"

text \<open>The end of the loop body: the training step, taken when the batch counter equals
  the batch size, and the reset of the accumulator.\<close>

definition fit_train ::
  "('w, 'g) backend \<Rightarrow> ('w, 'g) agents \<times> fit_locals \<Rightarrow>
   py_error + (('w, 'g) agents \<times> fit_locals)" where
  "fit_train ext st =
     (case st of (a, l) \<Rightarrow>
       if batch_counter l = batch_size (config_dict a) then
         (case train_speaker_policy_on_batch ext a (batch_training_inputs l)
                 (message_probs_storage l) (rewards_storage l) of
            Inl e \<Rightarrow> Inl e
          | Inr a' \<Rightarrow>
              Inr (a', l\<lparr>batch_counter := 0, batch_training_inputs := [],
                         message_probs_storage := [], rewards_storage := []\<rparr>))
       else Inr (a, l))"

fun fit_loop ::
  "('w, 'g) backend \<Rightarrow> ('w, 'g) agents \<times> fit_locals \<Rightarrow>
   (real list \<times> real list list \<times> int) list \<Rightarrow> py_error + (('w, 'g) agents \<times> fit_locals)" where
  "fit_loop ext st [] = Inr st"
| "fit_loop ext st (example # train_data) =
     (case fit_episode ext st example of
        Inl e \<Rightarrow> Inl e
      | Inr st1 \<Rightarrow>
         (case fit_train ext st1 of
            Inl e \<Rightarrow> Inl e
          | Inr st2 \<Rightarrow> fit_loop ext st2 train_data))"

text \<open>The state in which \<^verbatim>\<open>fit\<close> enters its loop.\<close>

definition fit_init :: "('w, 'g) agents \<Rightarrow> ('w, 'g) agents \<times> fit_locals" where
  "fit_init a =
     (a\<lparr>training_stats := Some []\<rparr>,
      \<lparr>total_reward = 0, batch_counter = 0, batch_training_inputs = [],
       message_probs_storage = [], rewards_storage = []\<rparr>)"

text \<open>\<^verbatim>\<open>fit\<close>, returning the object and the locals as the loop leaves them.\<close>

definition fit ::
  "('w, 'g) backend \<Rightarrow> ('w, 'g) agents \<Rightarrow> (real list \<times> real list list \<times> int) list \<Rightarrow>
   py_error + (('w, 'g) agents \<times> fit_locals)" where
  "fit ext a train_data = fit_loop ext (fit_init a) train_data"

text \<open>The body of the loop of \<^verbatim>\<open>predict\<close>; the second component of the loop state is
  the local \<^verbatim>\<open>total_reward\<close>.\<close>

definition predict_episode ::
  "('w, 'g) backend \<Rightarrow> ('w, 'g) agents \<times> int \<Rightarrow> real list \<times> real list list \<times> int \<Rightarrow>
   py_error + (('w, 'g) agents \<times> int)" where
  "predict_episode ext st example =
     (case (st, example) of ((a, total_rw), (target_input, candidates, target_candidate_idx)) \<Rightarrow>
       (case infer_from_speaker_policy ext a target_input of
          Inl e \<Rightarrow> Inl e
        | Inr ((msg, message_probs), a1) \<Rightarrow>
           (case listener_policy ext a1 msg candidates of
              Inl e \<Rightarrow> Inl e
            | Inr (chosen_target_idx, a2) \<Rightarrow>
               let rw = calculate_reward chosen_target_idx target_candidate_idx
               in if save_training_stats a2 then
                    (case py_getitem candidates chosen_target_idx of
                       Inl e \<Rightarrow> Inl e
                     | Inr c \<Rightarrow>
                        (case testing_stats a2 of
                           None \<Rightarrow> Inl AttributeError
                         | Some entries \<Rightarrow>
                             Inr (a2\<lparr>testing_stats :=
                                     Some (entries @ [\<lparr>reward = rw, input = target_input,
                                                   message = msg, chosen_target = c\<rparr>])\<rparr>,
                                  total_rw + rw)))
                  else Inr (a2, total_rw + rw))))"

fun predict_loop ::
  "('w, 'g) backend \<Rightarrow> ('w, 'g) agents \<times> int \<Rightarrow>
   (real list \<times> real list list \<times> int) list \<Rightarrow> py_error + (('w, 'g) agents \<times> int)" where
  "predict_loop ext st [] = Inr st"
| "predict_loop ext st (example # test_data) =
     (case predict_episode ext st example of
        Inl e \<Rightarrow> Inl e
      | Inr st1 \<Rightarrow> predict_loop ext st1 test_data)"

definition predict ::
  "('w, 'g) backend \<Rightarrow> ('w, 'g) agents \<Rightarrow> (real list \<times> real list list \<times> int) list \<Rightarrow>
   py_error + ('w, 'g) agents" where
  "predict ext a test_data =
     (case predict_loop ext (a\<lparr>testing_stats := Some []\<rparr>, 0) test_data of
        Inl e \<Rightarrow> Inl e
      | Inr (a', total_rw) \<Rightarrow> Inr a')"

text \<open>The training calls of a call log, each with the target inputs it was given.\<close>

fun trained_batches :: "call list \<Rightarrow> real list list list" where
  "trained_batches [] = []"
| "trained_batches (Call_train_speaker_policy_on_batch ti mp rw # cs) = ti # trained_batches cs"
| "trained_batches (c # cs) = trained_batches cs"

section \<open>BaseAgents\<close>

text \<open>
  \<^verbatim>\<open>BaseAgents\<close> (rl/agents.py) drives a speaker and a listener object whose classes are
  outside the repository's sources. Their methods are parameters of the model: \<open>'sp\<close> and
  \<open>'lp\<close> are the states of the two objects, and every method returns its result with the
  next state of its object, or raises. \<open>speaker_train_policy_on_batch\<close> and
  \<open>speaker_infer_from_policy\<close> are the speaker's \<^verbatim>\<open>train_speaker_policy_on_batch\<close>
  and \<^verbatim>\<open>infer_from_speaker_policy\<close>. \<^verbatim>\<open>BaseAgents.predict\<close> uses the value
  returned by \<^verbatim>\<open>infer_from_listener_policy\<close> as the chosen index.
\<close>

record ('sp, 'lp) policies =
  sample_from_speaker_policy ::
    "'sp \<Rightarrow> real list \<Rightarrow> py_error + ((string \<times> real list) \<times> 'sp)"
  sample_from_listener_policy ::
    "'lp \<Rightarrow> string \<Rightarrow> real list list \<Rightarrow> py_error + ((int \<times> real list) \<times> 'lp)"
  remember_speaker_training_details ::
    "'sp \<Rightarrow> real list \<Rightarrow> string \<Rightarrow> real list \<Rightarrow> int \<Rightarrow> py_error + 'sp"
  remember_listener_training_details ::
    "'lp \<Rightarrow> string \<Rightarrow> int \<Rightarrow> real list \<Rightarrow> real list list \<Rightarrow> int \<Rightarrow> py_error + 'lp"
  speaker_train_policy_on_batch :: "'sp \<Rightarrow> py_error + 'sp"
  train_listener_policy_on_batch :: "'lp \<Rightarrow> py_error + 'lp"
  speaker_infer_from_policy ::
    "'sp \<Rightarrow> real list \<Rightarrow> py_error + ((string \<times> real list) \<times> 'sp)"
  infer_from_listener_policy ::
    "'lp \<Rightarrow> string \<Rightarrow> real list list \<Rightarrow> py_error + (int \<times> 'lp)"

text \<open>The methods of the two objects that the orchestrator calls, for its ghost call
  log.\<close>

datatype policy_call =
  Speaker_sample
| Listener_sample
| Speaker_remember
| Listener_remember
| Speaker_train
| Listener_train
| Speaker_infer
| Listener_infer

text \<open>The object; the field names carry a prefix where they would clash with those of
  \<^verbatim>\<open>IndependentFullyConnectedAgents\<close>. \<^verbatim>\<open>total_training_reward\<close> and
  \<^verbatim>\<open>batch_counter\<close> are attributes that \<^verbatim>\<open>fit\<close> assigns before its loop.\<close>

record ('sp, 'lp) base_agents =
  base_config_dict :: config
  base_speaker_model :: 'sp
  base_listener_model :: 'lp
  base_save_training_stats :: bool
  base_save_testing_stats :: bool
  base_training_stats :: "(real list, int) stats_record list"
  base_testing_stats :: "(real list, int) stats_record list"
  total_training_reward :: int
  self_batch_counter :: int
  base_calls :: "policy_call list"

definition sample_from_networks_on_batch ::
  "('sp, 'lp) policies \<Rightarrow> ('sp, 'lp) base_agents \<Rightarrow> real list \<times> real list list \<times> real list \<Rightarrow>
   py_error + ('sp, 'lp) base_agents" where
  "sample_from_networks_on_batch pol b example =
     (case example of (target_input, candidates, target_candidate_idx) \<Rightarrow>
       (case sample_from_speaker_policy pol (base_speaker_model b) target_input of
          Inl e \<Rightarrow> Inl e
        | Inr ((speaker_message, speaker_probs), sp1) \<Rightarrow>
       (case sample_from_listener_policy pol (base_listener_model b) speaker_message
               candidates of
          Inl e \<Rightarrow> Inl e
        | Inr ((listener_action, listener_probs), lp1) \<Rightarrow>
       (case calculate_reward_onehot listener_action target_candidate_idx of
          Inl e \<Rightarrow> Inl e
        | Inr rw \<Rightarrow>
       (case remember_speaker_training_details pol sp1 target_input speaker_message
               speaker_probs rw of
          Inl e \<Rightarrow> Inl e
        | Inr sp2 \<Rightarrow>
       (case remember_listener_training_details pol lp1 speaker_message listener_action
               listener_probs candidates rw of
          Inl e \<Rightarrow> Inl e
        | Inr lp2 \<Rightarrow>
            let b1 = b\<lparr>base_speaker_model := sp2, base_listener_model := lp2,
                       total_training_reward := total_training_reward b + rw,
                       self_batch_counter := self_batch_counter b + 1,
                       base_calls := base_calls b @
                         [Speaker_sample, Listener_sample, Speaker_remember,
                          Listener_remember]\<rparr>
            in if base_save_training_stats b then
                 Inr (b1\<lparr>base_training_stats := base_training_stats b @
                            [\<lparr>reward = rw, input = target_input, message = speaker_message,
                              chosen_target = listener_action\<rparr>]\<rparr>)
               else Inr b1))))))"

definition train_networks_on_batch ::
  "('sp, 'lp) policies \<Rightarrow> ('sp, 'lp) base_agents \<Rightarrow> py_error + ('sp, 'lp) base_agents" where
  "train_networks_on_batch pol b =
     (case speaker_train_policy_on_batch pol (base_speaker_model b) of
        Inl e \<Rightarrow> Inl e
      | Inr sp1 \<Rightarrow>
     (case train_listener_policy_on_batch pol (base_listener_model b) of
        Inl e \<Rightarrow> Inl e
      | Inr lp1 \<Rightarrow>
          Inr (b\<lparr>base_speaker_model := sp1, base_listener_model := lp1,
                 self_batch_counter := 0,
                 base_calls := base_calls b @ [Speaker_train, Listener_train]\<rparr>)))"

text \<open>The end of the loop body of \<^verbatim>\<open>BaseAgents.fit\<close>.\<close>

definition base_fit_train ::
  "('sp, 'lp) policies \<Rightarrow> ('sp, 'lp) base_agents \<Rightarrow> py_error + ('sp, 'lp) base_agents" where
  "base_fit_train pol b =
     (if self_batch_counter b = batch_size (base_config_dict b)
      then train_networks_on_batch pol b else Inr b)"

fun base_fit_loop ::
  "('sp, 'lp) policies \<Rightarrow> ('sp, 'lp) base_agents \<Rightarrow>
   (real list \<times> real list list \<times> real list) list \<Rightarrow> py_error + ('sp, 'lp) base_agents" where
  "base_fit_loop pol b [] = Inr b"
| "base_fit_loop pol b (example # train_data) =
     (case sample_from_networks_on_batch pol b example of
        Inl e \<Rightarrow> Inl e
      | Inr b1 \<Rightarrow>
         (case base_fit_train pol b1 of
            Inl e \<Rightarrow> Inl e
          | Inr b2 \<Rightarrow> base_fit_loop pol b2 train_data))"

text \<open>\<^verbatim>\<open>BaseAgents.fit\<close>.\<close>

definition base_fit ::
  "('sp, 'lp) policies \<Rightarrow> ('sp, 'lp) base_agents \<Rightarrow>
   (real list \<times> real list list \<times> real list) list \<Rightarrow> py_error + ('sp, 'lp) base_agents" where
  "base_fit pol b train_data =
     base_fit_loop pol (b\<lparr>total_training_reward := 0, self_batch_counter := 0\<rparr>) train_data"

text \<open>The body of the loop of \<^verbatim>\<open>BaseAgents.predict\<close>, with the local
  \<^verbatim>\<open>total_reward\<close>.\<close>

definition base_predict_episode ::
  "('sp, 'lp) policies \<Rightarrow> ('sp, 'lp) base_agents \<times> int \<Rightarrow>
   real list \<times> real list list \<times> real list \<Rightarrow> py_error + (('sp, 'lp) base_agents \<times> int)" where
  "base_predict_episode pol st example =
     (case (st, example) of ((b, total_rw), (target_input, candidates, target_candidate_idx)) \<Rightarrow>
       (case speaker_infer_from_policy pol (base_speaker_model b) target_input of
          Inl e \<Rightarrow> Inl e
        | Inr ((msg, message_probs), sp1) \<Rightarrow>
       (case infer_from_listener_policy pol (base_listener_model b) msg candidates of
          Inl e \<Rightarrow> Inl e
        | Inr (chosen_target_idx, lp1) \<Rightarrow>
       (case calculate_reward_onehot chosen_target_idx target_candidate_idx of
          Inl e \<Rightarrow> Inl e
        | Inr rw \<Rightarrow>
            let b1 = b\<lparr>base_speaker_model := sp1, base_listener_model := lp1,
                       base_calls := base_calls b @ [Speaker_infer, Listener_infer]\<rparr>
            in if base_save_testing_stats b then
                 Inr (b1\<lparr>base_testing_stats := base_testing_stats b @
                            [\<lparr>reward = rw, input = target_input, message = msg,
                              chosen_target = chosen_target_idx\<rparr>]\<rparr>,
                      total_rw + rw)
               else Inr (b1, total_rw + rw)))))"

fun base_predict_loop ::
  "('sp, 'lp) policies \<Rightarrow> ('sp, 'lp) base_agents \<times> int \<Rightarrow>
   (real list \<times> real list list \<times> real list) list \<Rightarrow>
   py_error + (('sp, 'lp) base_agents \<times> int)" where
  "base_predict_loop pol st [] = Inr st"
| "base_predict_loop pol st (example # test_data) =
     (case base_predict_episode pol st example of
        Inl e \<Rightarrow> Inl e
      | Inr st1 \<Rightarrow> base_predict_loop pol st1 test_data)"

definition base_predict ::
  "('sp, 'lp) policies \<Rightarrow> ('sp, 'lp) base_agents \<Rightarrow>
   (real list \<times> real list list \<times> real list) list \<Rightarrow> py_error + ('sp, 'lp) base_agents" where
  "base_predict pol b test_data =
     (case base_predict_loop pol (b\<lparr>base_testing_stats := []\<rparr>, 0) test_data of
        Inl e \<Rightarrow> Inl e
      | Inr (b', total_rw) \<Rightarrow> Inr b')"

section \<open>Reading a message\<close>

text \<open>
  A message is a string: the decimal symbols, each followed by \<open>#\<close> when sampled and
  separated by \<open>#\<close> when inferred. To speak of the symbols a message contains, the
  string is read back: it is cut at every \<open>#\<close>, empty fields are dropped and each
  remaining field is read as a decimal number.
\<close>

fun split_on :: "char \<Rightarrow> string \<Rightarrow> string list" where
  "split_on c [] = [[]]"
| "split_on c (x # xs) =
     (if x = c then [] # split_on c xs
      else (case split_on c xs of [] \<Rightarrow> [[x]] | f # fs \<Rightarrow> (x # f) # fs))"

definition nat_of_str :: "string \<Rightarrow> nat" where
  "nat_of_str s = foldl (\<lambda>acc ch. 10 * acc + (of_char ch - 48)) 0 s"

definition message_symbols :: "string \<Rightarrow> nat list" where
  "message_symbols msg = map nat_of_str (filter (\<lambda>f. f \<noteq> []) (split_on CHR ''#'' msg))"

section \<open>Concrete scenarios\<close>

text \<open>
  The scenario of the specification: an alphabet of 5 symbols, messages of 3 symbols,
  batches of 2 examples, and a data set of two examples with 4 candidates each. The model
  state counts the training steps, the generator state counts the draws; the raw model
  output sums to 10.
\<close>

definition scenario_backend :: "(nat, nat) backend" where
  "scenario_backend =
     \<lparr>model_predict = (\<lambda>w x. Inr [1, 2, 4, 3, 0]),
      model_train_on_batch = (\<lambda>w X Y. Inr (Suc w)),
      random_choice = (\<lambda>g n p. Inr ((g div 2) mod n, Suc g)),
      random_randint = (\<lambda>g n. Inr (g mod n, Suc g))\<rparr>"

definition scenario_config :: config where
  "scenario_config =
     \<lparr>max_message_length = 3, alphabet_size = 5, speaker_dim = 2, batch_size = 2\<rparr>"

definition scenario_agents :: "(nat, nat) agents" where
  "scenario_agents =
     \<lparr>config_dict = scenario_config, save_training_stats = True, save_testing_stats = True,
      training_stats = None, testing_stats = None, speaker_model = 0,
      self_m_probs = None, self_r = None, self_X = None, self_Y = None,
      np_random = 0, calls = []\<rparr>"

definition scenario_data :: "(real list \<times> real list list \<times> int) list" where
  "scenario_data =
     [([1, 0], [[1, 0], [0, 1], [1, 1], [0, 0]], 0),
      ([0, 1], [[1, 0], [0, 1], [1, 1], [0, 0]], 1)]"

text \<open>A configuration whose messages are longer than its alphabet: 3 symbols from an
  alphabet of 2, with a model whose output has 2 entries.\<close>

definition short_alphabet_backend :: "(nat, nat) backend" where
  "short_alphabet_backend = scenario_backend\<lparr>model_predict := (\<lambda>w x. Inr [1, 2])\<rparr>"

definition short_alphabet_agents :: "(nat, nat) agents" where
  "short_alphabet_agents =
     scenario_agents\<lparr>config_dict := scenario_config\<lparr>alphabet_size := 2\<rparr>\<rparr>"


text \<open>The scenario for \<^verbatim>\<open>BaseAgents\<close>: a speaker and a listener whose state counts
  the episodes remembered since the last training step, and the data set with one-hot
  ground truths.\<close>

definition scenario_policies :: "(nat, nat) policies" where
  "scenario_policies =
     \<lparr>sample_from_speaker_policy = (\<lambda>sp x. Inr ((''0#2#'', [1 / 2, 1 / 4]), sp)),
      sample_from_listener_policy = (\<lambda>lp m c. Inr ((1, [1 / 4]), lp)),
      remember_speaker_training_details = (\<lambda>sp x m p rw. Inr (Suc sp)),
      remember_listener_training_details = (\<lambda>lp m act p c rw. Inr (Suc lp)),
      speaker_train_policy_on_batch = (\<lambda>sp. Inr 0),
      train_listener_policy_on_batch = (\<lambda>lp. Inr 0),
      speaker_infer_from_policy = (\<lambda>sp x. Inr ((''0#2'', [1 / 2, 1 / 4]), sp)),
      infer_from_listener_policy = (\<lambda>lp m c. Inr (1, lp))\<rparr>"

definition scenario_base_agents :: "(nat, nat) base_agents" where
  "scenario_base_agents =
     \<lparr>base_config_dict = scenario_config, base_speaker_model = 0, base_listener_model = 0,
      base_save_training_stats = True, base_save_testing_stats = True,
      base_training_stats = [], base_testing_stats = [],
      total_training_reward = 0, self_batch_counter = 0, base_calls = []\<rparr>"

definition scenario_onehot_data :: "(real list \<times> real list list \<times> real list) list" where
  "scenario_onehot_data =
     [([1, 0], [[1, 0], [0, 1], [1, 1], [0, 0]], [0, 1, 0, 0]),
      ([0, 1], [[1, 0], [0, 1], [1, 1], [0, 0]], [1, 0, 0, 0])]"

text \<open>The contract of \<^verbatim>\<open>np.random.choice(n, 1, p=p)\<close>, as a hypothesis: on a
  distribution \<open>p\<close> that it accepts, it returns one of the \<open>n\<close> symbols.\<close>

definition choice_returns :: "('w, 'g) backend \<Rightarrow> nat \<Rightarrow> real list \<Rightarrow> bool" where
  "choice_returns ext n p = (\<forall>g. \<exists>k g'. random_choice ext g n p = Inr (k, g') \<and> k < n)"

section \<open>Lemmas on strings and messages\<close>

lemma digit_char_neq_hash: "(n::nat) < 10 \<Longrightarrow> char_of (48 + n) \<noteq> CHR ''#''"
proof
  assume n: "n < 10" and "char_of (48 + n) = CHR ''#''"
  then have "of_char (char_of (48 + n) :: char) = (of_char CHR ''#'' :: nat)" by simp
  with n show False by (simp add: of_char_of)
qed

lemma of_char_digit: "(n::nat) < 10 \<Longrightarrow> (of_char (char_of (48 + n) :: char) :: nat) = 48 + n"
  by (simp add: of_char_of)

lemma str_nat_nonempty: "str_nat n \<noteq> []"
  by (subst str_nat.simps) simp

lemma hash_notin_str_nat: "CHR ''#'' \<notin> set (str_nat n)"
proof (induction n rule: str_nat.induct)
  case (1 n)
  show ?case
  proof (cases "n < 10")
    case True
    then show ?thesis using digit_char_neq_hash [of n] by (subst str_nat.simps) auto
  next
    case False
    then have "n mod 10 < 10" by simp
    with False 1 show ?thesis
      using digit_char_neq_hash [of "n mod 10"] by (subst str_nat.simps) auto
  qed
qed

lemma nat_of_str_snoc: "nat_of_str (s @ [ch]) = 10 * nat_of_str s + (of_char ch - 48)"
  by (simp add: nat_of_str_def)

lemma nat_of_str_str_nat: "nat_of_str (str_nat n) = n"
proof (induction n rule: str_nat.induct)
  case (1 n)
  show ?case
  proof (cases "n < 10")
    case True
    then show ?thesis
      by (subst str_nat.simps) (simp add: nat_of_str_def of_char_digit)
  next
    case False
    then have m: "n mod 10 < 10" by simp
    from False 1 have "nat_of_str (str_nat (n div 10)) = n div 10" by simp
    with False m show ?thesis
      by (subst str_nat.simps) (simp add: nat_of_str_snoc of_char_digit)
  qed
qed

lemma split_on_no_sep: "c \<notin> set f \<Longrightarrow> split_on c f = [f]"
  by (induction f) auto

lemma split_on_field: "c \<notin> set f \<Longrightarrow> split_on c (f @ c # rest) = f # split_on c rest"
  by (induction f) (auto split: list.splits)

lemma message_symbols_field:
  "message_symbols (str_nat s @ CHR ''#'' # rest) = s # message_symbols rest"
  by (simp add: message_symbols_def split_on_field hash_notin_str_nat str_nat_nonempty
      nat_of_str_str_nat)

lemma message_symbols_Nil: "message_symbols [] = []"
  by (simp add: message_symbols_def)

lemma message_symbols_sampled:
  "message_symbols (concat (map (\<lambda>s. str_nat s @ ''#'') syms)) = syms"
  by (induction syms) (simp_all add: message_symbols_Nil message_symbols_field)

lemma message_symbols_joined: "message_symbols (join_hash (map str_nat syms)) = syms"
proof (induction syms rule: induct_list012)
  case 1
  show ?case by (simp add: message_symbols_Nil)
next
  case (2 x)
  show ?case
    by (simp add: message_symbols_def split_on_no_sep hash_notin_str_nat str_nat_nonempty
        nat_of_str_str_nat)
next
  case (3 x y zs)
  then show ?case by (simp add: message_symbols_field)
qed

section \<open>Properties of the reward function\<close>

text \<open>
  Claim C1. Under the bare-index encoding the reward is 0 or 1, and it is 1 exactly when
  the chosen index equals the ground-truth index. Under the one-hot encoding, whenever the
  chosen index is a position of the ground-truth vector (so that
  \<^verbatim>\<open>target_candidate_idx[chosen_target_idx]\<close> has a value \<open>v\<close>), the call returns a
  reward that is 0 or 1, and it is 1 exactly when \<open>v = 1\<close>.
\<close>

theorem calculate_reward_binary_iff_match:
  "calculate_reward c t \<in> {0, 1} \<and> (calculate_reward c t = 1 \<longleftrightarrow> c = t) \<and>
   (py_getitem gt c = Inr v \<longrightarrow>
      (\<exists>rw. calculate_reward_onehot c gt = Inr rw \<and> rw \<in> {0, 1} \<and> (rw = 1 \<longleftrightarrow> v = 1)))"
  by (simp add: calculate_reward_def calculate_reward_onehot_def)

theorem calculate_reward_binary_iff_match_witness:
  "py_getitem [0, 1, 0] 1 = Inr (1::real) \<and> calculate_reward_onehot 1 [0, 1, 0] = Inr 1 \<and>
   py_getitem [0, 1, 0] 0 = Inr (0::real) \<and> calculate_reward_onehot 0 [0, 1, 0] = Inr 0 \<and>
   calculate_reward 2 2 = 1 \<and> calculate_reward 2 3 = 0"
  using calculate_reward_binary_iff_match [of 1 1 "[0, 1, 0]" 1]
    calculate_reward_binary_iff_match [of 2 3 "[0, 1, 0]" 0]
  by (simp add: py_getitem_def calculate_reward_def calculate_reward_onehot_def)

section \<open>Lemmas on sampling and inference\<close>

lemma sample_loop_result:
  "sample_loop ext asz p k (msg, mp, g) = Inr (msg', mp', g') \<Longrightarrow>
   \<exists>syms. length syms = k \<and> msg' = msg @ concat (map (\<lambda>s. str_nat s @ ''#'') syms) \<and>
          mp' = mp @ map (\<lambda>s. p ! s) syms \<and> (\<forall>s \<in> set syms. int s < asz)"
proof (induction k arbitrary: msg mp g)
  case 0
  then show ?case by simp
next
  case (Suc k)
  from Suc.prems obtain s g1 where
    ch: "np_random_choice ext g asz p = Inr (s, g1)" and
    gi: "py_getitem p (int s) = Inr (p ! s)" and
    rest: "sample_loop ext asz p k (msg @ str_nat s @ ''#'', mp @ [p ! s], g1) = Inr (msg', mp', g')"
    by (auto simp: py_getitem_def split: sum.splits if_splits)
  from ch have len: "int (length p) = asz"
    by (auto simp: np_random_choice_def split: if_splits)
  from gi have "s < length p" by (auto simp: py_getitem_def split: if_splits)
  with len have sr: "int s < asz" by simp
  from Suc.IH [OF rest] obtain syms where
    syms: "length syms = k" "msg' = (msg @ str_nat s @ ''#'') @ concat (map (\<lambda>s. str_nat s @ ''#'') syms)"
      "mp' = (mp @ [p ! s]) @ map (\<lambda>s. p ! s) syms" "\<forall>s \<in> set syms. int s < asz"
    by blast
  show ?case
    by (rule exI [of _ "s # syms"]) (use syms sr in simp)
qed

lemma sample_loop_total:
  assumes "0 < asz" "int (length p) = asz" "choice_returns ext (nat asz) p"
  shows "\<exists>res. sample_loop ext asz p k (msg, mp, g) = Inr res"
proof (induction k arbitrary: msg mp g)
  case 0
  show ?case by simp
next
  case (Suc k)
  from assms(3) obtain s g1 where
    rc: "random_choice ext g (nat asz) p = Inr (s, g1)" and lt: "s < nat asz"
    unfolding choice_returns_def by blast
  from lt assms have s: "s < length p" by simp
  from assms rc have ch: "np_random_choice ext g asz p = Inr (s, g1)"
    by (simp add: np_random_choice_def)
  from s have gi: "py_getitem p (int s) = Inr (p ! s)"
    by (simp add: py_getitem_def)
  from Suc.IH [of "msg @ str_nat s @ ''#''" "mp @ [p ! s]" g1] ch gi
  show ?case by simp
qed

lemma length_normalized_probs: "length (normalized_probs p) = length p"
  by (simp add: normalized_probs_def)


lemma sample_message_shape:
  assumes "sample_speaker_policy_for_message ext a x = Inr ((msg, mps), a')"
  shows "length (message_symbols msg) = nat (max_message_length (config_dict a)) \<and>
         length mps = nat (max_message_length (config_dict a)) \<and>
         (\<forall>s \<in> set (message_symbols msg). int s < alphabet_size (config_dict a))"
proof -
  from assms obtain probs g where
    "sample_loop ext (alphabet_size (config_dict a)) (normalized_probs probs)
       (nat (max_message_length (config_dict a))) ([], [], np_random a) = Inr (msg, mps, g)"
    by (auto simp: sample_speaker_policy_for_message_def split: if_splits sum.splits)
  from sample_loop_result [OF this] show ?thesis
    by (auto simp: message_symbols_sampled)
qed

lemma sample_returns:
  assumes "np_reshape_ok (length x) 1 (speaker_dim (config_dict a))"
    and "model_predict ext (speaker_model a) x = Inr probs"
    and "int (length probs) = alphabet_size (config_dict a)"
    and "0 < alphabet_size (config_dict a)"
    and "choice_returns ext (nat (alphabet_size (config_dict a))) (normalized_probs probs)"
  shows "\<exists>msg mps a'. sample_speaker_policy_for_message ext a x = Inr ((msg, mps), a')"
proof -
  from assms(3) have "int (length (normalized_probs probs)) = alphabet_size (config_dict a)"
    by (simp add: length_normalized_probs)
  from sample_loop_total [OF assms(4) this assms(5)] obtain res where
    "sample_loop ext (alphabet_size (config_dict a)) (normalized_probs probs)
       (nat (max_message_length (config_dict a))) ([], [], np_random a) = Inr res"
    by blast
  with assms(1,2) show ?thesis
    by (cases res) (auto simp: sample_speaker_policy_for_message_def)
qed

lemma set_argsort: "set (argsort p) = {0..<length p}"
  by (simp add: argsort_def)

lemma distinct_argsort: "distinct (argsort p)"
  by (simp add: argsort_def)

lemma length_argsort: "length (argsort p) = length p"
  by (simp add: argsort_def)

lemma distinct_argmax_indices: "distinct (argmax_indices m p)"
  by (simp add: argmax_indices_def py_slice_from_def distinct_argsort)

lemma set_argmax_indices: "s \<in> set (argmax_indices m p) \<Longrightarrow> s < length p"
  using set_argsort [of p]
  by (auto simp: argmax_indices_def py_slice_from_def dest!: in_set_dropD split: if_splits)

lemma length_argmax_indices:
  "1 \<le> m \<Longrightarrow> m \<le> int (length p) \<Longrightarrow> length (argmax_indices m p) = nat m"
  by (auto simp: argmax_indices_def py_slice_from_def length_argsort)

lemma infer_result:
  "infer_from_speaker_policy ext a x = Inr ((msg, mps), a') \<Longrightarrow>
   \<exists>probs. model_predict ext (speaker_model a) x = Inr probs \<and>
     message_symbols msg = argmax_indices (max_message_length (config_dict a))
       (normalized_probs probs) \<and>
     length mps = length (message_symbols msg) \<and>
     a' = a\<lparr>calls := calls a @ [Call_infer_from_speaker_policy]\<rparr>"
  by (auto simp: infer_from_speaker_policy_def Let_def message_symbols_joined
      split: if_splits sum.splits)

lemma infer_returns:
  "np_reshape_ok (length x) 1 (speaker_dim (config_dict a)) \<Longrightarrow>
   model_predict ext (speaker_model a) x = Inr probs \<Longrightarrow>
   \<exists>msg mps a'. infer_from_speaker_policy ext a x = Inr ((msg, mps), a')"
  by (simp add: infer_from_speaker_policy_def Let_def)

lemma scenario_choice_returns:
  "choice_returns scenario_backend (nat (alphabet_size (config_dict scenario_agents)))
     (normalized_probs [1, 2, 4, 3, 0])"
  by (simp add: choice_returns_def scenario_backend_def scenario_agents_def
      scenario_config_def)

section \<open>Message length and symbol range\<close>

text \<open>
  Claim C4 as stated fails for \<^verbatim>\<open>infer_from_speaker_policy\<close>: with messages of 3
  symbols over an alphabet of 2, the greedy selection returns the 2 positions of the
  probability vector and no more.
\<close>

theorem infer_message_shorter_than_max_message_length:
  "max_message_length (config_dict short_alphabet_agents) = 3 \<and>
   alphabet_size (config_dict short_alphabet_agents) = 2 \<and>
   infer_from_speaker_policy short_alphabet_backend short_alphabet_agents [1, 0] =
     Inr ((''1#0'', [2 / 3, 1 / 3]),
          short_alphabet_agents\<lparr>calls := [Call_infer_from_speaker_policy]\<rparr>) \<and>
   message_symbols ''1#0'' = [1, 0]"
  by code_simp

lemma short_alphabet_choice_returns:
  "choice_returns short_alphabet_backend
     (nat (alphabet_size (config_dict short_alphabet_agents))) (normalized_probs [1, 2])"
  by (simp add: choice_returns_def short_alphabet_backend_def scenario_backend_def
      short_alphabet_agents_def scenario_agents_def scenario_config_def)

text \<open>
  Claim C4, amended. Take a target input of the configured size on which the model
  returns a vector of \<open>alphabet_size\<close> entries. The sample operation
  \<^verbatim>\<open>sample_speaker_policy_for_message\<close>, for every \<open>max_message_length \<ge> 0\<close> and a
  non-empty alphabet, when the random choice accepts the renormalised vector and returns
  one of the \<open>alphabet_size\<close> symbols, returns a message of exactly
  \<open>max_message_length\<close> symbols with a probability sequence of that length, every symbol
  in \<open>[0, alphabet_size)\<close>. The infer operation \<^verbatim>\<open>infer_from_speaker_policy\<close> does so
  when \<open>1 \<le> max_message_length \<le> alphabet_size\<close>.
\<close>

theorem sample_and_infer_message_shape:
  assumes "np_reshape_ok (length x) 1 (speaker_dim (config_dict a))"
    and "model_predict ext (speaker_model a) x = Inr probs"
    and "int (length probs) = alphabet_size (config_dict a)"
  shows "(0 \<le> max_message_length (config_dict a) \<and> 0 < alphabet_size (config_dict a) \<and>
          choice_returns ext (nat (alphabet_size (config_dict a))) (normalized_probs probs) \<longrightarrow>
           (\<exists>msg mps a'. sample_speaker_policy_for_message ext a x = Inr ((msg, mps), a') \<and>
             int (length (message_symbols msg)) = max_message_length (config_dict a) \<and>
             int (length mps) = max_message_length (config_dict a) \<and>
             (\<forall>s \<in> set (message_symbols msg).
                0 \<le> int s \<and> int s < alphabet_size (config_dict a)))) \<and>
         (1 \<le> max_message_length (config_dict a) \<and>
          max_message_length (config_dict a) \<le> alphabet_size (config_dict a) \<longrightarrow>
           (\<exists>msg mps a'. infer_from_speaker_policy ext a x = Inr ((msg, mps), a') \<and>
             int (length (message_symbols msg)) = max_message_length (config_dict a) \<and>
             int (length mps) = max_message_length (config_dict a) \<and>
             (\<forall>s \<in> set (message_symbols msg).
                0 \<le> int s \<and> int s < alphabet_size (config_dict a))))"
proof (intro conjI impI)
  assume h: "0 \<le> max_message_length (config_dict a) \<and> 0 < alphabet_size (config_dict a) \<and>
          choice_returns ext (nat (alphabet_size (config_dict a))) (normalized_probs probs)"
  then have pos: "0 < alphabet_size (config_dict a)"
    and cr: "choice_returns ext (nat (alphabet_size (config_dict a))) (normalized_probs probs)"
    and nn: "0 \<le> max_message_length (config_dict a)"
    by simp_all
  from sample_returns [OF assms(1) assms(2) assms(3) pos cr] obtain msg mps a' where
    r: "sample_speaker_policy_for_message ext a x = Inr ((msg, mps), a')" by blast
  from sample_message_shape [OF r] nn r
  show "\<exists>msg mps a'. sample_speaker_policy_for_message ext a x = Inr ((msg, mps), a') \<and>
           int (length (message_symbols msg)) = max_message_length (config_dict a) \<and>
           int (length mps) = max_message_length (config_dict a) \<and>
           (\<forall>s \<in> set (message_symbols msg). 0 \<le> int s \<and> int s < alphabet_size (config_dict a))"
    by auto
next
  assume h: "1 \<le> max_message_length (config_dict a) \<and>
          max_message_length (config_dict a) \<le> alphabet_size (config_dict a)"
  from infer_returns [OF assms(1) assms(2)] obtain msg mps a' where
    r: "infer_from_speaker_policy ext a x = Inr ((msg, mps), a')" by blast
  let ?p = "normalized_probs probs"
  from infer_result [OF r] assms(2) have
    ms: "message_symbols msg = argmax_indices (max_message_length (config_dict a)) ?p" and
    lm: "length mps = length (message_symbols msg)" by auto
  from assms(3) have lp: "int (length ?p) = alphabet_size (config_dict a)"
    by (simp add: length_normalized_probs)
  from h lp have len: "length (message_symbols msg) = nat (max_message_length (config_dict a))"
    unfolding ms by (intro length_argmax_indices) simp_all
  have rng: "\<forall>s \<in> set (message_symbols msg). 0 \<le> int s \<and> int s < alphabet_size (config_dict a)"
  proof
    fix s
    assume "s \<in> set (message_symbols msg)"
    then have "s < length ?p" unfolding ms by (rule set_argmax_indices)
    then have "int s < int (length ?p)" by simp
    with lp show "0 \<le> int s \<and> int s < alphabet_size (config_dict a)" by linarith
  qed
  from r len lm rng h
  show "\<exists>msg mps a'. infer_from_speaker_policy ext a x = Inr ((msg, mps), a') \<and>
           int (length (message_symbols msg)) = max_message_length (config_dict a) \<and>
           int (length mps) = max_message_length (config_dict a) \<and>
           (\<forall>s \<in> set (message_symbols msg). 0 \<le> int s \<and> int s < alphabet_size (config_dict a))"
    by auto
qed

theorem sample_and_infer_message_shape_witness:
  "np_reshape_ok (length [1, 0 :: real]) 1 (speaker_dim (config_dict scenario_agents)) \<and>
   model_predict scenario_backend (speaker_model scenario_agents) [1, 0] =
     Inr [1, 2, 4, 3, 0] \<and>
   int (length [1, 2, 4, 3, 0 :: real]) = alphabet_size (config_dict scenario_agents) \<and>
   0 < alphabet_size (config_dict scenario_agents) \<and>
   choice_returns scenario_backend (nat (alphabet_size (config_dict scenario_agents)))
     (normalized_probs [1, 2, 4, 3, 0]) \<and>
   1 \<le> max_message_length (config_dict scenario_agents) \<and>
   max_message_length (config_dict scenario_agents) \<le> alphabet_size (config_dict scenario_agents) \<and>
   (\<exists>msg mps a'. sample_speaker_policy_for_message scenario_backend scenario_agents [1, 0] =
        Inr ((msg, mps), a') \<and> int (length (message_symbols msg)) = 3 \<and> int (length mps) = 3) \<and>
   (\<exists>msg mps a'. infer_from_speaker_policy scenario_backend scenario_agents [1, 0] =
        Inr ((msg, mps), a') \<and> int (length (message_symbols msg)) = 3 \<and> int (length mps) = 3) \<and>
   np_reshape_ok (length [1, 0 :: real]) 1 (speaker_dim (config_dict short_alphabet_agents)) \<and>
   model_predict short_alphabet_backend (speaker_model short_alphabet_agents) [1, 0] =
     Inr [1, 2] \<and>
   int (length [1, 2 :: real]) = alphabet_size (config_dict short_alphabet_agents) \<and>
   0 \<le> max_message_length (config_dict short_alphabet_agents) \<and>
   0 < alphabet_size (config_dict short_alphabet_agents) \<and>
   choice_returns short_alphabet_backend
     (nat (alphabet_size (config_dict short_alphabet_agents))) (normalized_probs [1, 2]) \<and>
   (\<exists>msg mps a'.
      sample_speaker_policy_for_message short_alphabet_backend short_alphabet_agents [1, 0] =
        Inr ((msg, mps), a') \<and> int (length (message_symbols msg)) = 3 \<and> int (length mps) = 3 \<and>
      (\<forall>s \<in> set (message_symbols msg). int s < 2))"
proof -
  have h1: "np_reshape_ok (length [1, 0 :: real]) 1 (speaker_dim (config_dict scenario_agents))"
    by (simp add: np_reshape_ok_def scenario_agents_def scenario_config_def)
  have h2: "model_predict scenario_backend (speaker_model scenario_agents) [1, 0] =
     Inr [1, 2, 4, 3, 0]"
    by (simp add: scenario_backend_def)
  have h3: "int (length [1, 2, 4, 3, 0 :: real]) = alphabet_size (config_dict scenario_agents)"
    by (simp add: scenario_agents_def scenario_config_def)
  have h4: "choice_returns scenario_backend (nat (alphabet_size (config_dict scenario_agents)))
     (normalized_probs [1, 2, 4, 3, 0])"
    by (rule scenario_choice_returns)
  have m: "max_message_length (config_dict scenario_agents) = 3"
    "alphabet_size (config_dict scenario_agents) = 5"
    by (simp_all add: scenario_agents_def scenario_config_def)
  have k1: "np_reshape_ok (length [1, 0 :: real]) 1
      (speaker_dim (config_dict short_alphabet_agents))"
    by (simp add: np_reshape_ok_def short_alphabet_agents_def scenario_agents_def
        scenario_config_def)
  have k2: "model_predict short_alphabet_backend (speaker_model short_alphabet_agents) [1, 0] =
     Inr [1, 2]"
    by (simp add: short_alphabet_backend_def)
  have k3: "int (length [1, 2 :: real]) = alphabet_size (config_dict short_alphabet_agents)"
    by (simp add: short_alphabet_agents_def)
  have k4: "choice_returns short_alphabet_backend
     (nat (alphabet_size (config_dict short_alphabet_agents))) (normalized_probs [1, 2])"
    by (rule short_alphabet_choice_returns)
  have n: "max_message_length (config_dict short_alphabet_agents) = 3"
    "alphabet_size (config_dict short_alphabet_agents) = 2"
    by (simp_all add: short_alphabet_agents_def scenario_agents_def scenario_config_def)
  from sample_and_infer_message_shape [OF h1 h2 h3] h4 m have 1:
    "\<exists>msg mps a'. sample_speaker_policy_for_message scenario_backend scenario_agents [1, 0] =
        Inr ((msg, mps), a') \<and> int (length (message_symbols msg)) = 3 \<and> int (length mps) = 3"
    "\<exists>msg mps a'. infer_from_speaker_policy scenario_backend scenario_agents [1, 0] =
        Inr ((msg, mps), a') \<and> int (length (message_symbols msg)) = 3 \<and> int (length mps) = 3"
    by auto
  from sample_and_infer_message_shape [OF k1 k2 k3] k4 n have 2:
    "\<exists>msg mps a'.
      sample_speaker_policy_for_message short_alphabet_backend short_alphabet_agents [1, 0] =
        Inr ((msg, mps), a') \<and> int (length (message_symbols msg)) = 3 \<and> int (length mps) = 3 \<and>
      (\<forall>s \<in> set (message_symbols msg). int s < 2)"
    by auto
  from h1 h2 h3 h4 m k1 k2 k3 k4 n 1 2 show ?thesis by simp
qed

section \<open>Determinism of inference\<close>

text \<open>
  Claim C5. \<^verbatim>\<open>infer_from_speaker_policy\<close> is deterministic: on one target input, two
  objects with the same model state and configuration (whatever their generator state,
  logs and other attributes) return the same message and the same probability sequence,
  or raise the same error; and a call leaves the model as it was, so that a second call
  returns the same message and probabilities as the first.
\<close>

theorem infer_is_deterministic:
  "(speaker_model a1 = speaker_model a2 \<and> config_dict a1 = config_dict a2 \<longrightarrow>
      map_sum id fst (infer_from_speaker_policy ext a1 x) =
      map_sum id fst (infer_from_speaker_policy ext a2 x)) \<and>
   (infer_from_speaker_policy ext a x = Inr (res, a') \<longrightarrow>
      speaker_model a' = speaker_model a \<and>
      map_sum id fst (infer_from_speaker_policy ext a' x) = Inr res)"
  by (auto simp: infer_from_speaker_policy_def Let_def split: if_splits sum.splits)

theorem infer_is_deterministic_witness:
  "speaker_model (scenario_agents\<lparr>np_random := 7\<rparr>) = speaker_model scenario_agents \<and>
   config_dict (scenario_agents\<lparr>np_random := 7\<rparr>) = config_dict scenario_agents \<and>
   map_sum id fst (infer_from_speaker_policy scenario_backend (scenario_agents\<lparr>np_random := 7\<rparr>) [1, 0]) =
     Inr (''2#3#1'', [2 / 5, 3 / 10, 1 / 5]) \<and>
   map_sum id fst (infer_from_speaker_policy scenario_backend scenario_agents [1, 0]) =
     Inr (''2#3#1'', [2 / 5, 3 / 10, 1 / 5])"
proof -
  have e: "map_sum id fst (infer_from_speaker_policy scenario_backend scenario_agents [1, 0]) =
     Inr (''2#3#1'', [2 / 5, 3 / 10, 1 / 5])"
    by code_simp
  have h: "speaker_model (scenario_agents\<lparr>np_random := 7\<rparr>) = speaker_model scenario_agents \<and>
   config_dict (scenario_agents\<lparr>np_random := 7\<rparr>) = config_dict scenario_agents"
    by simp
  from infer_is_deterministic [of "scenario_agents\<lparr>np_random := 7\<rparr>" scenario_agents
      scenario_backend "[1, 0]"] h e
  show ?thesis by simp
qed

section \<open>Repeated symbols\<close>

text \<open>
  Claim C10. The symbols of a message returned by \<^verbatim>\<open>infer_from_speaker_policy\<close> are
  pairwise distinct, whereas \<^verbatim>\<open>sample_speaker_policy_for_message\<close> may repeat symbols:
  in the scenario, with a random choice that returns symbols of the alphabet, it returns
  the message \<open>0#0#1#\<close>.
\<close>

theorem infer_symbols_distinct_sample_may_repeat:
  "(infer_from_speaker_policy ext a x = Inr ((msg, mps), a') \<longrightarrow> distinct (message_symbols msg)) \<and>
   choice_returns scenario_backend (nat (alphabet_size (config_dict scenario_agents)))
     (normalized_probs [1, 2, 4, 3, 0]) \<and>
   sample_speaker_policy_for_message scenario_backend scenario_agents [1, 0] =
     Inr ((''0#0#1#'', [1 / 10, 1 / 10, 1 / 5]),
          scenario_agents\<lparr>np_random := 3, calls := [Call_sample_speaker_policy_for_message]\<rparr>) \<and>
   \<not> distinct (message_symbols ''0#0#1#'')"
proof (intro conjI impI)
  assume "infer_from_speaker_policy ext a x = Inr ((msg, mps), a')"
  from infer_result [OF this] show "distinct (message_symbols msg)"
    by (auto simp: distinct_argmax_indices)
next
  show "choice_returns scenario_backend (nat (alphabet_size (config_dict scenario_agents)))
     (normalized_probs [1, 2, 4, 3, 0])"
    by (rule scenario_choice_returns)
next
  show "sample_speaker_policy_for_message scenario_backend scenario_agents [1, 0] =
     Inr ((''0#0#1#'', [1 / 10, 1 / 10, 1 / 5]),
          scenario_agents\<lparr>np_random := 3, calls := [Call_sample_speaker_policy_for_message]\<rparr>)"
    by code_simp
next
  show "\<not> distinct (message_symbols ''0#0#1#'')" by code_simp
qed

theorem infer_symbols_distinct_sample_may_repeat_witness:
  "infer_from_speaker_policy scenario_backend scenario_agents [1, 0] =
     Inr ((''2#3#1'', [2 / 5, 3 / 10, 1 / 5]),
          scenario_agents\<lparr>calls := [Call_infer_from_speaker_policy]\<rparr>) \<and>
   distinct (message_symbols ''2#3#1'')"
proof -
  have e: "infer_from_speaker_policy scenario_backend scenario_agents [1, 0] =
     Inr ((''2#3#1'', [2 / 5, 3 / 10, 1 / 5]),
          scenario_agents\<lparr>calls := [Call_infer_from_speaker_policy]\<rparr>)"
    by code_simp
  from infer_symbols_distinct_sample_may_repeat [of scenario_backend scenario_agents "[1, 0]"
      "''2#3#1''" "[2 / 5, 3 / 10, 1 / 5]"
      "scenario_agents\<lparr>calls := [Call_infer_from_speaker_policy]\<rparr>"] e
  show ?thesis by blast
qed

section \<open>Lemmas on the loops of IndependentFullyConnectedAgents\<close>

lemma trained_batches_append:
  "trained_batches (cs @ ds) = trained_batches cs @ trained_batches ds"
  by (induction cs rule: trained_batches.induct) simp_all

lemma sample_frame:
  "sample_speaker_policy_for_message ext a x = Inr (res, a') \<Longrightarrow>
   \<exists>g. a' = a\<lparr>np_random := g, calls := calls a @ [Call_sample_speaker_policy_for_message]\<rparr>"
  by (auto simp: sample_speaker_policy_for_message_def Let_def split: if_splits sum.splits)

lemma listener_frame:
  "listener_policy ext a msg candidates = Inr (chosen, a') \<Longrightarrow>
   \<exists>g. a' = a\<lparr>np_random := g, calls := calls a @ [Call_listener_policy]\<rparr>"
  by (auto simp: listener_policy_def split: if_splits sum.splits prod.splits)

lemma infer_frame:
  "infer_from_speaker_policy ext a x = Inr (res, a') \<Longrightarrow>
   a' = a\<lparr>calls := calls a @ [Call_infer_from_speaker_policy]\<rparr>"
  by (auto simp: infer_from_speaker_policy_def Let_def split: if_splits sum.splits)

lemma train_frame:
  "train_speaker_policy_on_batch ext a ti mp rw = Inr a' \<Longrightarrow>
   config_dict a' = config_dict a \<and> save_training_stats a' = save_training_stats a \<and>
   save_testing_stats a' = save_testing_stats a \<and> training_stats a' = training_stats a \<and>
   testing_stats a' = testing_stats a \<and> np_random a' = np_random a \<and>
   calls a' = calls a @ [Call_train_speaker_policy_on_batch ti mp rw]"
  by (auto simp: train_speaker_policy_on_batch_def Let_def split: if_splits sum.splits)

lemma fit_episode_frame:
  assumes "fit_episode ext (a, l) ex = Inr (a', l')"
  shows "config_dict a' = config_dict a \<and> save_training_stats a' = save_training_stats a \<and>
    save_testing_stats a' = save_testing_stats a \<and> testing_stats a' = testing_stats a \<and>
    speaker_model a' = speaker_model a \<and>
    calls a' = calls a @ [Call_sample_speaker_policy_for_message, Call_listener_policy] \<and>
    batch_counter l' = batch_counter l + 1 \<and>
    batch_training_inputs l' = batch_training_inputs l @ [fst ex] \<and>
    length (message_probs_storage l') = Suc (length (message_probs_storage l)) \<and>
    length (rewards_storage l') = Suc (length (rewards_storage l))"
proof -
  obtain x cands t where ex: "ex = (x, cands, t)" by (cases ex) auto
  from assms ex obtain msg mps a1 where
    s: "sample_speaker_policy_for_message ext a x = Inr ((msg, mps), a1)"
    by (auto simp: fit_episode_def split: sum.splits)
  from assms ex s obtain chosen a2 where
    li: "listener_policy ext a1 msg cands = Inr (chosen, a2)"
    by (auto simp: fit_episode_def split: sum.splits)
  from sample_frame [OF s] obtain g1 where
    a1: "a1 = a\<lparr>np_random := g1, calls := calls a @ [Call_sample_speaker_policy_for_message]\<rparr>"
    by blast
  from listener_frame [OF li] obtain g2 where
    a2: "a2 = a1\<lparr>np_random := g2, calls := calls a1 @ [Call_listener_policy]\<rparr>"
    by blast
  from assms ex s li show ?thesis
    unfolding a2 a1
    by (auto simp: fit_episode_def Let_def split: if_splits sum.splits option.splits)
qed

lemma fit_episode_training_stats:
  assumes "fit_episode ext (a, l) ex = Inr (a', l')" and "training_stats a = Some entries"
  shows "\<exists>entries'. training_stats a' = Some entries' \<and>
           length entries' = (if save_training_stats a then Suc (length entries) else length entries)"
proof -
  obtain x cands t where ex: "ex = (x, cands, t)" by (cases ex) auto
  from assms ex obtain msg mps a1 where
    s: "sample_speaker_policy_for_message ext a x = Inr ((msg, mps), a1)"
    by (auto simp: fit_episode_def split: sum.splits)
  from assms ex s obtain chosen a2 where
    li: "listener_policy ext a1 msg cands = Inr (chosen, a2)"
    by (auto simp: fit_episode_def split: sum.splits)
  from sample_frame [OF s] obtain g1 where
    a1: "a1 = a\<lparr>np_random := g1, calls := calls a @ [Call_sample_speaker_policy_for_message]\<rparr>"
    by blast
  from listener_frame [OF li] obtain g2 where
    a2: "a2 = a1\<lparr>np_random := g2, calls := calls a1 @ [Call_listener_policy]\<rparr>"
    by blast
  from assms ex s li show ?thesis
    unfolding a2 a1
    by (auto simp: fit_episode_def Let_def split: if_splits sum.splits option.splits)
qed

lemma fit_train_frame:
  assumes "fit_train ext (a, l) = Inr (a', l')"
  shows "config_dict a' = config_dict a \<and> save_training_stats a' = save_training_stats a \<and>
    save_testing_stats a' = save_testing_stats a \<and> training_stats a' = training_stats a \<and>
    testing_stats a' = testing_stats a \<and>
    (if batch_counter l = batch_size (config_dict a)
     then calls a' = calls a @ [Call_train_speaker_policy_on_batch (batch_training_inputs l)
            (message_probs_storage l) (rewards_storage l)] \<and>
          batch_counter l' = 0 \<and> batch_training_inputs l' = [] \<and>
          message_probs_storage l' = [] \<and> rewards_storage l' = []
     else a' = a \<and> l' = l)"
proof (cases "batch_counter l = batch_size (config_dict a)")
  case True
  with assms obtain a1 where
    t: "train_speaker_policy_on_batch ext a (batch_training_inputs l)
          (message_probs_storage l) (rewards_storage l) = Inr a1"
    by (auto simp: fit_train_def split: sum.splits)
  with assms True have "a' = a1" and
    "l' = l\<lparr>batch_counter := 0, batch_training_inputs := [],
             message_probs_storage := [], rewards_storage := []\<rparr>"
    by (auto simp: fit_train_def)
  with train_frame [OF t] True show ?thesis by simp
next
  case False
  with assms show ?thesis by (auto simp: fit_train_def)
qed

lemma fit_loop_append:
  "fit_loop ext st (xs @ ys) =
     (case fit_loop ext st xs of Inl e \<Rightarrow> Inl e | Inr st' \<Rightarrow> fit_loop ext st' ys)"
  by (induction xs arbitrary: st) (auto split: sum.splits)

lemma fit_loop_Cons_Inr:
  assumes "fit_loop ext (a, l) (ex # data) = Inr (a', l')"
  obtains a1 l1 a2 l2 where "fit_episode ext (a, l) ex = Inr (a1, l1)"
    and "fit_train ext (a1, l1) = Inr (a2, l2)"
    and "fit_loop ext (a2, l2) data = Inr (a', l')"
proof -
  from assms obtain st1 where e: "fit_episode ext (a, l) ex = Inr st1"
    by (auto split: sum.splits)
  with assms obtain st2 where t: "fit_train ext st1 = Inr st2"
    by (auto split: sum.splits)
  from assms e t have r: "fit_loop ext st2 data = Inr (a', l')" by simp
  obtain a1 l1 where st1: "st1 = (a1, l1)" by (cases st1)
  obtain a2 l2 where st2: "st2 = (a2, l2)" by (cases st2)
  from e t r st1 st2 that show thesis by simp
qed

lemma fit_loop_accumulator:
  assumes "fit_loop ext (a, l) data = Inr (a', l')"
    and "int (length (batch_training_inputs l)) = batch_counter l"
    and "length (message_probs_storage l) = length (batch_training_inputs l)"
    and "length (rewards_storage l) = length (batch_training_inputs l)"
  shows "int (length (batch_training_inputs l')) = batch_counter l' \<and>
         length (message_probs_storage l') = length (batch_training_inputs l') \<and>
         length (rewards_storage l') = length (batch_training_inputs l') \<and>
         config_dict a' = config_dict a"
  using assms
proof (induction data arbitrary: a l)
  case Nil
  then show ?case by simp
next
  case (Cons ex data)
  from Cons.prems(1) obtain a1 l1 a2 l2 where
    e: "fit_episode ext (a, l) ex = Inr (a1, l1)" and
    t: "fit_train ext (a1, l1) = Inr (a2, l2)" and
    r: "fit_loop ext (a2, l2) data = Inr (a', l')"
    by (rule fit_loop_Cons_Inr)
  note ef = fit_episode_frame [OF e] and tf = fit_train_frame [OF t]
  from ef Cons.prems have l1: "int (length (batch_training_inputs l1)) = batch_counter l1"
    "length (message_probs_storage l1) = length (batch_training_inputs l1)"
    "length (rewards_storage l1) = length (batch_training_inputs l1)"
    by simp_all
  from tf l1 have l2: "int (length (batch_training_inputs l2)) = batch_counter l2"
    "length (message_probs_storage l2) = length (batch_training_inputs l2)"
    "length (rewards_storage l2) = length (batch_training_inputs l2)"
    by (simp_all split: if_splits)
  from Cons.IH [OF r l2] ef tf show ?case by simp
qed

lemma fit_loop_batches:
  assumes "fit_loop ext (a, l) data = Inr (a', l')"
    and "int (length (batch_training_inputs l)) = batch_counter l"
    and "batch_counter l < batch_size (config_dict a)"
  shows "\<exists>B. trained_batches (calls a') = trained_batches (calls a) @ B \<and>
           (\<forall>b \<in> set B. int (length b) = batch_size (config_dict a)) \<and>
           concat B @ batch_training_inputs l' = batch_training_inputs l @ map fst data \<and>
           int (length (batch_training_inputs l')) = batch_counter l' \<and>
           batch_counter l' < batch_size (config_dict a)"
  using assms
proof (induction data arbitrary: a l)
  case Nil
  then show ?case by simp
next
  case (Cons ex data)
  from Cons.prems(1) obtain a1 l1 a2 l2 where
    e: "fit_episode ext (a, l) ex = Inr (a1, l1)" and
    t: "fit_train ext (a1, l1) = Inr (a2, l2)" and
    r: "fit_loop ext (a2, l2) data = Inr (a', l')"
    by (rule fit_loop_Cons_Inr)
  note ef = fit_episode_frame [OF e] and tf = fit_train_frame [OF t]
  from ef have c1: "config_dict a1 = config_dict a" by simp
  from tf c1 have c2: "config_dict a2 = config_dict a" by simp
  from ef Cons.prems have l1: "int (length (batch_training_inputs l1)) = batch_counter l1"
    and i1: "batch_training_inputs l1 = batch_training_inputs l @ [fst ex]"
    and k1: "calls a1 = calls a @ [Call_sample_speaker_policy_for_message, Call_listener_policy]"
    by simp_all
  from k1 have tb1: "trained_batches (calls a1) = trained_batches (calls a)"
    by (simp add: trained_batches_append)
  show ?case
  proof (cases "batch_counter l1 = batch_size (config_dict a)")
    case True
    with tf c1 have k2: "calls a2 = calls a1 @ [Call_train_speaker_policy_on_batch
          (batch_training_inputs l1) (message_probs_storage l1) (rewards_storage l1)]"
      and z: "batch_counter l2 = 0" "batch_training_inputs l2 = []"
      by simp_all
    from k2 tb1 have tb2: "trained_batches (calls a2) =
        trained_batches (calls a) @ [batch_training_inputs l1]"
      by (simp add: trained_batches_append)
    from ef Cons.prems True have pos: "0 < batch_size (config_dict a)" by simp
    from z pos c2 have p2: "int (length (batch_training_inputs l2)) = batch_counter l2"
      "batch_counter l2 < batch_size (config_dict a2)" by simp_all
    from Cons.IH [OF r p2] c2 obtain B where
      B: "trained_batches (calls a') = trained_batches (calls a2) @ B"
        "\<forall>b \<in> set B. int (length b) = batch_size (config_dict a)"
        "concat B @ batch_training_inputs l' = batch_training_inputs l2 @ map fst data"
        "int (length (batch_training_inputs l')) = batch_counter l'"
        "batch_counter l' < batch_size (config_dict a)"
      by auto
    show ?thesis
      by (rule exI [of _ "batch_training_inputs l1 # B"]) (use B tb2 l1 True i1 z in simp)
  next
    case False
    with tf c1 have same: "a2 = a1" "l2 = l1" by simp_all
    from ef Cons.prems False have lt: "batch_counter l1 < batch_size (config_dict a1)"
      using c1 by simp
    from Cons.IH [of a1 l1] r same l1 lt c1 tb1 obtain B where
      B: "trained_batches (calls a') = trained_batches (calls a) @ B"
        "\<forall>b \<in> set B. int (length b) = batch_size (config_dict a)"
        "concat B @ batch_training_inputs l' = batch_training_inputs l1 @ map fst data"
        "int (length (batch_training_inputs l')) = batch_counter l'"
        "batch_counter l' < batch_size (config_dict a)"
      by auto
    show ?thesis
      by (rule exI [of _ B]) (use B i1 in simp)
  qed
qed

lemma fit_loop_training_stats:
  assumes "fit_loop ext (a, l) data = Inr (a', l')" and "training_stats a = Some entries"
  shows "\<exists>entries'. training_stats a' = Some entries' \<and>
           length entries' =
             length entries + (if save_training_stats a then length data else 0)"
  using assms
proof (induction data arbitrary: a l entries)
  case Nil
  then show ?case by simp
next
  case (Cons ex data)
  from Cons.prems(1) obtain a1 l1 a2 l2 where
    e: "fit_episode ext (a, l) ex = Inr (a1, l1)" and
    t: "fit_train ext (a1, l1) = Inr (a2, l2)" and
    r: "fit_loop ext (a2, l2) data = Inr (a', l')"
    by (rule fit_loop_Cons_Inr)
  note ef = fit_episode_frame [OF e] and tf = fit_train_frame [OF t]
  from fit_episode_training_stats [OF e Cons.prems(2)] obtain entries1 where
    e1: "training_stats a1 = Some entries1"
      "length entries1 = (if save_training_stats a then Suc (length entries) else length entries)"
    by blast
  from tf e1 have e2: "training_stats a2 = Some entries1" by simp
  from ef tf have sv: "save_training_stats a2 = save_training_stats a" by simp
  from Cons.IH [OF r e2] sv e1 show ?case by auto
qed


section \<open>Lemmas on the loops of BaseAgents\<close>

lemma sample_from_networks_frame:
  assumes "sample_from_networks_on_batch pol b ex = Inr b'"
  shows "base_config_dict b' = base_config_dict b \<and>
    base_save_training_stats b' = base_save_training_stats b \<and>
    base_save_testing_stats b' = base_save_testing_stats b \<and>
    base_testing_stats b' = base_testing_stats b \<and>
    self_batch_counter b' = self_batch_counter b + 1 \<and>
    base_calls b' = base_calls b @
      [Speaker_sample, Listener_sample, Speaker_remember, Listener_remember] \<and>
    length (base_training_stats b') =
      (if base_save_training_stats b then Suc (length (base_training_stats b))
       else length (base_training_stats b))"
  using assms
  by (auto simp: sample_from_networks_on_batch_def Let_def
      split: prod.splits sum.splits if_splits)

lemma train_networks_frame:
  assumes "train_networks_on_batch pol b = Inr b'"
  shows "base_config_dict b' = base_config_dict b \<and>
    base_save_training_stats b' = base_save_training_stats b \<and>
    base_save_testing_stats b' = base_save_testing_stats b \<and>
    base_testing_stats b' = base_testing_stats b \<and>
    base_training_stats b' = base_training_stats b \<and>
    self_batch_counter b' = 0 \<and>
    base_calls b' = base_calls b @ [Speaker_train, Listener_train]"
  using assms
  by (auto simp: train_networks_on_batch_def split: sum.splits)

lemma base_fit_loop_Cons_Inr:
  assumes "base_fit_loop pol b (ex # data) = Inr b'"
  obtains b1 b2 where "sample_from_networks_on_batch pol b ex = Inr b1"
    and "base_fit_train pol b1 = Inr b2"
    and "base_fit_loop pol b2 data = Inr b'"
  using assms by (auto split: sum.splits)

lemma base_fit_loop_append:
  "base_fit_loop pol b (xs @ ys) =
     (case base_fit_loop pol b xs of Inl e \<Rightarrow> Inl e | Inr b' \<Rightarrow> base_fit_loop pol b' ys)"
  by (induction xs arbitrary: b) (auto split: sum.splits)

lemma base_fit_loop_counts:
  assumes "base_fit_loop pol b data = Inr b'"
    and "0 \<le> self_batch_counter b"
    and "self_batch_counter b < batch_size (base_config_dict b)"
  shows "base_config_dict b' = base_config_dict b \<and>
    int (count_list (base_calls b') Speaker_train) =
      int (count_list (base_calls b) Speaker_train) +
      (self_batch_counter b + int (length data)) div batch_size (base_config_dict b) \<and>
    int (count_list (base_calls b') Listener_train) =
      int (count_list (base_calls b) Listener_train) +
      (self_batch_counter b + int (length data)) div batch_size (base_config_dict b) \<and>
    0 \<le> self_batch_counter b' \<and> self_batch_counter b' < batch_size (base_config_dict b)"
  using assms
proof (induction data arbitrary: b)
  case Nil
  then show ?case by simp
next
  case (Cons ex data)
  from Cons.prems(1) obtain b1 b2 where
    e: "sample_from_networks_on_batch pol b ex = Inr b1" and
    t: "base_fit_train pol b1 = Inr b2" and
    r: "base_fit_loop pol b2 data = Inr b'"
    by (rule base_fit_loop_Cons_Inr)
  note ef = sample_from_networks_frame [OF e]
  let ?bs = "batch_size (base_config_dict b)"
  from ef have c1: "base_config_dict b1 = base_config_dict b"
    and n1: "self_batch_counter b1 = self_batch_counter b + 1"
    and k1: "count_list (base_calls b1) Speaker_train = count_list (base_calls b) Speaker_train"
      "count_list (base_calls b1) Listener_train = count_list (base_calls b) Listener_train"
    by simp_all
  show ?case
  proof (cases "self_batch_counter b1 = ?bs")
    case True
    with t c1 have tr: "train_networks_on_batch pol b1 = Inr b2"
      by (simp add: base_fit_train_def)
    note tf = train_networks_frame [OF tr]
    from tf c1 have c2: "base_config_dict b2 = base_config_dict b" by simp
    from tf k1 have k2:
      "count_list (base_calls b2) Speaker_train = Suc (count_list (base_calls b) Speaker_train)"
      "count_list (base_calls b2) Listener_train = Suc (count_list (base_calls b) Listener_train)"
      by simp_all
    from tf have z: "self_batch_counter b2 = 0" by simp
    from Cons.prems n1 True have pos: "0 < ?bs" by simp
    from z pos c2 have p: "0 \<le> self_batch_counter b2"
      "self_batch_counter b2 < batch_size (base_config_dict b2)" by simp_all
    from True n1 have "self_batch_counter b + int (length (ex # data)) =
        ?bs + int (length data)" by simp
    then have "(self_batch_counter b + int (length (ex # data))) div ?bs =
        (?bs + int (length data)) div ?bs" by (rule arg_cong)
    also from pos have "\<dots> = 1 + int (length data) div ?bs" by simp
    finally have d: "(self_batch_counter b + int (length (ex # data))) div ?bs =
        1 + int (length data) div ?bs" .
    from Cons.IH [OF r p] c2 k2 z d show ?thesis by simp
  next
    case False
    with t c1 have same: "b2 = b1" by (simp add: base_fit_train_def)
    from Cons.prems n1 False have p: "0 \<le> self_batch_counter b1"
      "self_batch_counter b1 < batch_size (base_config_dict b1)"
      using c1 by simp_all
    from n1 have "self_batch_counter b + int (length (ex # data)) =
        self_batch_counter b1 + int (length data)" by simp
    then have d: "(self_batch_counter b + int (length (ex # data))) div ?bs =
        (self_batch_counter b1 + int (length data)) div ?bs" by (rule arg_cong)
    from Cons.IH [of b1] r same p c1 k1 d show ?thesis by simp
  qed
qed

lemma base_fit_loop_training_stats:
  assumes "base_fit_loop pol b data = Inr b'"
  shows "length (base_training_stats b') =
           length (base_training_stats b) +
           (if base_save_training_stats b then length data else 0)"
  using assms
proof (induction data arbitrary: b)
  case Nil
  then show ?case by simp
next
  case (Cons ex data)
  from Cons.prems(1) obtain b1 b2 where
    e: "sample_from_networks_on_batch pol b ex = Inr b1" and
    t: "base_fit_train pol b1 = Inr b2" and
    r: "base_fit_loop pol b2 data = Inr b'"
    by (rule base_fit_loop_Cons_Inr)
  note ef = sample_from_networks_frame [OF e]
  have b2: "base_training_stats b2 = base_training_stats b1 \<and>
      base_save_training_stats b2 = base_save_training_stats b1"
  proof (cases "self_batch_counter b1 = batch_size (base_config_dict b1)")
    case True
    with t have "train_networks_on_batch pol b1 = Inr b2" by (simp add: base_fit_train_def)
    from train_networks_frame [OF this] show ?thesis by simp
  next
    case False
    with t show ?thesis by (simp add: base_fit_train_def)
  qed
  from Cons.IH [OF r] b2 ef show ?case by simp
qed

section \<open>Lemmas on prediction\<close>

lemma predict_episode_frame:
  assumes "predict_episode ext (a, t) ex = Inr (a', t')"
  shows "config_dict a' = config_dict a \<and> save_training_stats a' = save_training_stats a \<and>
    save_testing_stats a' = save_testing_stats a \<and> training_stats a' = training_stats a \<and>
    speaker_model a' = speaker_model a \<and> self_m_probs a' = self_m_probs a \<and>
    self_r a' = self_r a \<and> self_X a' = self_X a \<and> self_Y a' = self_Y a \<and>
    calls a' = calls a @ [Call_infer_from_speaker_policy, Call_listener_policy]"
proof -
  obtain x cands tc where ex: "ex = (x, cands, tc)" by (cases ex) auto
  from assms ex obtain msg mps a1 where
    s: "infer_from_speaker_policy ext a x = Inr ((msg, mps), a1)"
    by (auto simp: predict_episode_def split: sum.splits)
  from assms ex s obtain chosen a2 where
    li: "listener_policy ext a1 msg cands = Inr (chosen, a2)"
    by (auto simp: predict_episode_def split: sum.splits)
  note a1 = infer_frame [OF s]
  from listener_frame [OF li] obtain g2 where
    a2: "a2 = a1\<lparr>np_random := g2, calls := calls a1 @ [Call_listener_policy]\<rparr>"
    by blast
  from assms ex s li show ?thesis
    unfolding a2 a1
    by (auto simp: predict_episode_def Let_def split: if_splits sum.splits option.splits)
qed

lemma predict_episode_testing_stats:
  assumes "predict_episode ext (a, t) ex = Inr (a', t')" and "testing_stats a = Some entries"
  shows "\<exists>entries'. testing_stats a' = Some entries' \<and>
           length entries' = (if save_training_stats a then Suc (length entries) else length entries)"
proof -
  obtain x cands tc where ex: "ex = (x, cands, tc)" by (cases ex) auto
  from assms ex obtain msg mps a1 where
    s: "infer_from_speaker_policy ext a x = Inr ((msg, mps), a1)"
    by (auto simp: predict_episode_def split: sum.splits)
  from assms ex s obtain chosen a2 where
    li: "listener_policy ext a1 msg cands = Inr (chosen, a2)"
    by (auto simp: predict_episode_def split: sum.splits)
  note a1 = infer_frame [OF s]
  from listener_frame [OF li] obtain g2 where
    a2: "a2 = a1\<lparr>np_random := g2, calls := calls a1 @ [Call_listener_policy]\<rparr>"
    by blast
  from assms ex s li show ?thesis
    unfolding a2 a1
    by (auto simp: predict_episode_def Let_def split: if_splits sum.splits option.splits)
qed

lemma predict_loop_Cons_Inr:
  assumes "predict_loop ext (a, t) (ex # data) = Inr (a', t')"
  obtains a1 t1 where "predict_episode ext (a, t) ex = Inr (a1, t1)"
    and "predict_loop ext (a1, t1) data = Inr (a', t')"
proof -
  from assms obtain st1 where e: "predict_episode ext (a, t) ex = Inr st1"
    by (auto split: sum.splits)
  with assms have r: "predict_loop ext st1 data = Inr (a', t')" by simp
  obtain a1 t1 where "st1 = (a1, t1)" by (cases st1)
  with e r that show thesis by simp
qed

lemma predict_loop_frame:
  assumes "predict_loop ext (a, t) data = Inr (a', t')"
  shows "config_dict a' = config_dict a \<and> save_training_stats a' = save_training_stats a \<and>
    save_testing_stats a' = save_testing_stats a \<and> training_stats a' = training_stats a \<and>
    speaker_model a' = speaker_model a \<and> self_m_probs a' = self_m_probs a \<and>
    self_r a' = self_r a \<and> self_X a' = self_X a \<and> self_Y a' = self_Y a \<and>
    calls a' = calls a @
      concat (replicate (length data) [Call_infer_from_speaker_policy, Call_listener_policy])"
  using assms
proof (induction data arbitrary: a t)
  case Nil
  then show ?case by simp
next
  case (Cons ex data)
  from Cons.prems obtain a1 t1 where
    e: "predict_episode ext (a, t) ex = Inr (a1, t1)" and
    r: "predict_loop ext (a1, t1) data = Inr (a', t')"
    by (rule predict_loop_Cons_Inr)
  from Cons.IH [OF r] predict_episode_frame [OF e] show ?case by simp
qed

lemma predict_loop_testing_stats:
  assumes "predict_loop ext (a, t) data = Inr (a', t')" and "testing_stats a = Some entries"
  shows "\<exists>entries'. testing_stats a' = Some entries' \<and>
           length entries' =
             length entries + (if save_training_stats a then length data else 0)"
  using assms
proof (induction data arbitrary: a t entries)
  case Nil
  then show ?case by simp
next
  case (Cons ex data)
  from Cons.prems(1) obtain a1 t1 where
    e: "predict_episode ext (a, t) ex = Inr (a1, t1)" and
    r: "predict_loop ext (a1, t1) data = Inr (a', t')"
    by (rule predict_loop_Cons_Inr)
  from predict_episode_testing_stats [OF e Cons.prems(2)] obtain entries1 where
    e1: "testing_stats a1 = Some entries1"
      "length entries1 = (if save_training_stats a then Suc (length entries) else length entries)"
    by blast
  from predict_episode_frame [OF e] have sv: "save_training_stats a1 = save_training_stats a"
    by simp
  from Cons.IH [OF r e1(1)] sv e1(2) show ?case by auto
qed

lemma predict_Inr:
  assumes "predict ext a data = Inr a'"
  obtains t' where "predict_loop ext (a\<lparr>testing_stats := Some []\<rparr>, 0) data = Inr (a', t')"
  using assms by (auto simp: predict_def split: sum.splits)

lemma predict_testing_stats_length:
  assumes "predict ext a data = Inr a'"
  shows "\<exists>entries. testing_stats a' = Some entries \<and>
           length entries = (if save_training_stats a then length data else 0)"
proof -
  from assms obtain t' where
    l: "predict_loop ext (a\<lparr>testing_stats := Some []\<rparr>, 0) data = Inr (a', t')"
    by (rule predict_Inr)
  from predict_loop_testing_stats [OF l, of "[]"] show ?thesis by simp
qed

text \<open>The flag \<^verbatim>\<open>save_testing_stats\<close> is not read by \<^verbatim>\<open>predict\<close>.\<close>

lemma infer_ignores_save_testing_stats:
  "infer_from_speaker_policy ext (a\<lparr>save_testing_stats := flag\<rparr>) x =
   map_sum id (\<lambda>(res, a'). (res, a'\<lparr>save_testing_stats := flag\<rparr>))
     (infer_from_speaker_policy ext a x)"
  by (simp add: infer_from_speaker_policy_def Let_def split: sum.splits)

lemma listener_ignores_save_testing_stats:
  "listener_policy ext (a\<lparr>save_testing_stats := flag\<rparr>) msg cands =
   map_sum id (\<lambda>(res, a'). (res, a'\<lparr>save_testing_stats := flag\<rparr>))
     (listener_policy ext a msg cands)"
  by (simp add: listener_policy_def split: sum.splits prod.splits)

lemma predict_episode_ignores_save_testing_stats:
  "predict_episode ext (a\<lparr>save_testing_stats := flag\<rparr>, t) ex =
   map_sum id (\<lambda>(a', t'). (a'\<lparr>save_testing_stats := flag\<rparr>, t'))
     (predict_episode ext (a, t) ex)"
proof -
  obtain x cands tc where ex: "ex = (x, cands, tc)" by (cases ex) auto
  show ?thesis
  proof (cases "infer_from_speaker_policy ext a x")
    case (Inl e)
    with ex show ?thesis
      by (simp add: predict_episode_def infer_ignores_save_testing_stats)
  next
    case (Inr r)
    then obtain msg mps a1 where i: "infer_from_speaker_policy ext a x = Inr ((msg, mps), a1)"
      by (cases r) auto
    show ?thesis
    proof (cases "listener_policy ext a1 msg cands")
      case (Inl e)
      with ex i show ?thesis
        by (simp add: predict_episode_def infer_ignores_save_testing_stats
            listener_ignores_save_testing_stats)
    next
      case (Inr r2)
      then obtain chosen a2 where li: "listener_policy ext a1 msg cands = Inr (chosen, a2)"
        by (cases r2) auto
      with ex i show ?thesis
        by (simp add: predict_episode_def infer_ignores_save_testing_stats
            listener_ignores_save_testing_stats Let_def split: sum.splits option.splits)
    qed
  qed
qed

lemma predict_loop_ignores_save_testing_stats:
  "predict_loop ext (a\<lparr>save_testing_stats := flag\<rparr>, t) data =
   map_sum id (\<lambda>(a', t'). (a'\<lparr>save_testing_stats := flag\<rparr>, t'))
     (predict_loop ext (a, t) data)"
proof (induction data arbitrary: a t)
  case Nil
  show ?case by simp
next
  case (Cons ex data)
  show ?case
  proof (cases "predict_episode ext (a, t) ex")
    case (Inl e)
    then show ?thesis by (simp add: predict_episode_ignores_save_testing_stats)
  next
    case (Inr st1)
    obtain a1 t1 where "st1 = (a1, t1)" by (cases st1)
    with Inr Cons.IH [of a1 t1] show ?thesis
      by (simp add: predict_episode_ignores_save_testing_stats)
  qed
qed

lemma predict_ignores_save_testing_stats:
  "predict ext (a\<lparr>save_testing_stats := flag\<rparr>) data =
   map_sum id (\<lambda>a'. a'\<lparr>save_testing_stats := flag\<rparr>) (predict ext a data)"
proof -
  have sw: "(a\<lparr>save_testing_stats := flag\<rparr>)\<lparr>testing_stats := Some []\<rparr> =
        (a\<lparr>testing_stats := Some []\<rparr>)\<lparr>save_testing_stats := flag\<rparr>" by simp
  have "predict ext (a\<lparr>save_testing_stats := flag\<rparr>) data =
      (case predict_loop ext ((a\<lparr>testing_stats := Some []\<rparr>)\<lparr>save_testing_stats := flag\<rparr>, 0)
              data of
         Inl e \<Rightarrow> Inl e
       | Inr (a', total_rw) \<Rightarrow> Inr a')"
    by (simp only: predict_def sw)
  also have "\<dots> = map_sum id (\<lambda>a'. a'\<lparr>save_testing_stats := flag\<rparr>) (predict ext a data)"
    unfolding predict_loop_ignores_save_testing_stats predict_def
    by (cases "predict_loop ext (a\<lparr>testing_stats := Some []\<rparr>, 0) data") auto
  finally show ?thesis .
qed

section \<open>Lemmas on prediction in BaseAgents\<close>

lemma base_predict_episode_frame:
  assumes "base_predict_episode pol (b, t) ex = Inr (b', t')"
  shows "base_config_dict b' = base_config_dict b \<and>
    base_save_training_stats b' = base_save_training_stats b \<and>
    base_save_testing_stats b' = base_save_testing_stats b \<and>
    base_training_stats b' = base_training_stats b \<and>
    total_training_reward b' = total_training_reward b \<and>
    self_batch_counter b' = self_batch_counter b \<and>
    base_calls b' = base_calls b @ [Speaker_infer, Listener_infer] \<and>
    (\<exists>x res. speaker_infer_from_policy pol (base_speaker_model b) x =
        Inr (res, base_speaker_model b')) \<and>
    (\<exists>msg cands res. infer_from_listener_policy pol (base_listener_model b) msg cands =
        Inr (res, base_listener_model b'))"
proof -
  obtain x cands tc where ex: "ex = (x, cands, tc)" by (cases ex) auto
  from assms ex obtain msg mps sp1 where
    s: "speaker_infer_from_policy pol (base_speaker_model b) x = Inr ((msg, mps), sp1)"
    by (auto simp: base_predict_episode_def split: sum.splits)
  from assms ex s obtain chosen lp1 where
    li: "infer_from_listener_policy pol (base_listener_model b) msg cands = Inr (chosen, lp1)"
    by (auto simp: base_predict_episode_def split: sum.splits)
  from assms ex s li have m: "base_speaker_model b' = sp1" "base_listener_model b' = lp1"
    by (auto simp: base_predict_episode_def Let_def split: sum.splits if_splits)
  from s m have e1: "\<exists>x res. speaker_infer_from_policy pol (base_speaker_model b) x =
        Inr (res, base_speaker_model b')" by blast
  from li m have e2: "\<exists>msg cands res.
      infer_from_listener_policy pol (base_listener_model b) msg cands =
        Inr (res, base_listener_model b')" by blast
  from assms ex s li have "base_config_dict b' = base_config_dict b \<and>
    base_save_training_stats b' = base_save_training_stats b \<and>
    base_save_testing_stats b' = base_save_testing_stats b \<and>
    base_training_stats b' = base_training_stats b \<and>
    total_training_reward b' = total_training_reward b \<and>
    self_batch_counter b' = self_batch_counter b \<and>
    base_calls b' = base_calls b @ [Speaker_infer, Listener_infer]"
    by (auto simp: base_predict_episode_def Let_def split: sum.splits if_splits)
  with e1 e2 show ?thesis by simp
qed

lemma base_predict_loop_Cons_Inr:
  assumes "base_predict_loop pol (b, t) (ex # data) = Inr (b', t')"
  obtains b1 t1 where "base_predict_episode pol (b, t) ex = Inr (b1, t1)"
    and "base_predict_loop pol (b1, t1) data = Inr (b', t')"
proof -
  from assms obtain st1 where e: "base_predict_episode pol (b, t) ex = Inr st1"
    by (auto split: sum.splits)
  with assms have r: "base_predict_loop pol st1 data = Inr (b', t')" by simp
  obtain b1 t1 where "st1 = (b1, t1)" by (cases st1)
  with e r that show thesis by simp
qed

lemma base_predict_loop_frame:
  assumes "base_predict_loop pol (b, t) data = Inr (b', t')"
  shows "base_config_dict b' = base_config_dict b \<and>
    base_save_training_stats b' = base_save_training_stats b \<and>
    base_save_testing_stats b' = base_save_testing_stats b \<and>
    base_training_stats b' = base_training_stats b \<and>
    total_training_reward b' = total_training_reward b \<and>
    self_batch_counter b' = self_batch_counter b \<and>
    base_calls b' = base_calls b @
      concat (replicate (length data) [Speaker_infer, Listener_infer]) \<and>
    ((\<forall>sp x res sp'. speaker_infer_from_policy pol sp x = Inr (res, sp') \<longrightarrow> sp' = sp) \<longrightarrow>
       base_speaker_model b' = base_speaker_model b) \<and>
    ((\<forall>lp msg cands res lp'. infer_from_listener_policy pol lp msg cands = Inr (res, lp') \<longrightarrow>
         lp' = lp) \<longrightarrow>
       base_listener_model b' = base_listener_model b)"
  using assms
proof (induction data arbitrary: b t)
  case Nil
  then show ?case by simp
next
  case (Cons ex data)
  from Cons.prems obtain b1 t1 where
    e: "base_predict_episode pol (b, t) ex = Inr (b1, t1)" and
    r: "base_predict_loop pol (b1, t1) data = Inr (b', t')"
    by (rule base_predict_loop_Cons_Inr)
  note ef = base_predict_episode_frame [OF e]
  from ef have sp: "(\<forall>sp x res sp'. speaker_infer_from_policy pol sp x = Inr (res, sp') \<longrightarrow> sp' = sp)
      \<longrightarrow> base_speaker_model b1 = base_speaker_model b" by blast
  from ef have lp: "(\<forall>lp msg cands res lp'.
        infer_from_listener_policy pol lp msg cands = Inr (res, lp') \<longrightarrow> lp' = lp)
      \<longrightarrow> base_listener_model b1 = base_listener_model b" by blast
  from Cons.IH [OF r] ef sp lp show ?case by simp
qed

section \<open>Runs of the scenarios\<close>

lemma map_sum_Inr_D: "map_sum f g x = Inr y \<Longrightarrow> \<exists>v. x = Inr v \<and> g v = y"
  by (cases x) auto

lemma scenario_fit_run:
  "map_sum id (\<lambda>st. (trained_batches (calls (fst st)), map_option length (training_stats (fst st)),
       snd st))
     (fit scenario_backend scenario_agents scenario_data) =
   Inr ([[[1, 0], [0, 1]]], Some 2,
        \<lparr>total_reward = 0, batch_counter = 0, batch_training_inputs = [],
         message_probs_storage = [], rewards_storage = []\<rparr>)"
  by code_simp

lemma scenario_fit_three_run:
  "map_sum id (\<lambda>st. (trained_batches (calls (fst st)), batch_training_inputs (snd st)))
     (fit scenario_backend scenario_agents
        (scenario_data @ [([1, 1], [[1, 0], [0, 1], [1, 1], [0, 0]], 2)])) =
   Inr ([[[1, 0], [0, 1]]], [[1, 1]])"
  by code_simp

lemma scenario_base_fit_run:
  "map_sum id (\<lambda>b. (count_list (base_calls b) Speaker_train,
       count_list (base_calls b) Listener_train, self_batch_counter b,
       length (base_training_stats b)))
     (base_fit scenario_policies scenario_base_agents scenario_onehot_data) =
   Inr (1, 1, 0, 2)"
  by code_simp

lemma scenario_predict_run:
  "map_sum id (\<lambda>a. (testing_stats a, calls a, speaker_model a))
     (predict scenario_backend scenario_agents scenario_data) =
   Inr (Some [\<lparr>reward = 1, input = [1, 0], message = ''2#3#1'', chosen_target = [1, 0]\<rparr>,
              \<lparr>reward = 1, input = [0, 1], message = ''2#3#1'', chosen_target = [0, 1]\<rparr>],
        [Call_infer_from_speaker_policy, Call_listener_policy,
         Call_infer_from_speaker_policy, Call_listener_policy], 0)"
  by code_simp

lemma scenario_base_predict_run:
  "map_sum id (\<lambda>b. (length (base_testing_stats b), base_calls b))
     (base_predict scenario_policies scenario_base_agents scenario_onehot_data) =
   Inr (2, [Speaker_infer, Listener_infer, Speaker_infer, Listener_infer])"
  by code_simp

lemma scenario_predict_unsaved_run:
  "map_sum id testing_stats
     (predict scenario_backend (scenario_agents\<lparr>save_training_stats := False\<rparr>) scenario_data) =
   Inr (Some [])"
  by code_simp

section \<open>Training steps and full batches\<close>



lemma base_fit_loop_config:
  assumes "base_fit_loop pol b data = Inr b'"
  shows "base_config_dict b' = base_config_dict b"
  using assms
proof (induction data arbitrary: b)
  case Nil
  then show ?case by simp
next
  case (Cons ex data)
  from Cons.prems(1) obtain b1 b2 where
    e: "sample_from_networks_on_batch pol b ex = Inr b1" and
    t: "base_fit_train pol b1 = Inr b2" and
    r: "base_fit_loop pol b2 data = Inr b'"
    by (rule base_fit_loop_Cons_Inr)
  have "base_config_dict b2 = base_config_dict b1"
  proof (cases "self_batch_counter b1 = batch_size (base_config_dict b1)")
    case True
    with t have "train_networks_on_batch pol b1 = Inr b2" by (simp add: base_fit_train_def)
    from train_networks_frame [OF this] show ?thesis by simp
  next
    case False
    with t show ?thesis by (simp add: base_fit_train_def)
  qed
  with Cons.IH [OF r] sample_from_networks_frame [OF e] show ?case by simp
qed

section \<open>The accumulator at a training step\<close>

text \<open>
  Claim C3. Take any run of fit, at any iteration: the loop has processed the examples
  \<open>seen\<close> (its state is then the result of fit on \<open>seen\<close>) and runs the episode of the
  next example. If the batch counter then triggers the training step, the three
  accumulated lists hold no more than \<open>batch_size\<close> elements, and when the training step
  returns they hold none and the counter is 0. With a batch size of at least 1, the lists
  hold no more than \<open>batch_size\<close> elements at every test of the counter. The same holds
  of the batch counter of \<^verbatim>\<open>BaseAgents\<close>.
\<close>

theorem accumulator_bounded_at_trigger_and_empty_after:
  "(fit ext a seen = Inr st \<and> fit_episode ext st ex = Inr (a1, l1) \<longrightarrow>
      (batch_counter l1 = batch_size (config_dict a1) \<or> 1 \<le> batch_size (config_dict a1) \<longrightarrow>
         int (length (batch_training_inputs l1)) \<le> batch_size (config_dict a1) \<and>
         int (length (message_probs_storage l1)) \<le> batch_size (config_dict a1) \<and>
         int (length (rewards_storage l1)) \<le> batch_size (config_dict a1)) \<and>
      (\<forall>a2 l2. batch_counter l1 = batch_size (config_dict a1) \<and>
           fit_train ext (a1, l1) = Inr (a2, l2) \<longrightarrow>
         batch_training_inputs l2 = [] \<and> message_probs_storage l2 = [] \<and>
         rewards_storage l2 = [] \<and> batch_counter l2 = 0)) \<and>
   (base_fit pol b base_seen = Inr b0 \<and>
    sample_from_networks_on_batch pol b0 base_ex = Inr b1 \<longrightarrow>
      (self_batch_counter b1 = batch_size (base_config_dict b1) \<or>
       1 \<le> batch_size (base_config_dict b1) \<longrightarrow>
         self_batch_counter b1 \<le> batch_size (base_config_dict b1)) \<and>
      (\<forall>b2. self_batch_counter b1 = batch_size (base_config_dict b1) \<and>
           base_fit_train pol b1 = Inr b2 \<longrightarrow> self_batch_counter b2 = 0))"
proof (intro conjI impI allI)
  assume h: "fit ext a seen = Inr st \<and> fit_episode ext st ex = Inr (a1, l1)"
  obtain a0 l0 where st: "st = (a0, l0)" by (cases st)
  let ?ai = "a\<lparr>training_stats := Some []\<rparr>"
  let ?li = "\<lparr>total_reward = 0, batch_counter = 0, batch_training_inputs = [],
       message_probs_storage = [], rewards_storage = []\<rparr>"
  from h st have run: "fit_loop ext (?ai, ?li) seen = Inr (a0, l0)"
    by (simp add: fit_def fit_init_def)
  from h st have e: "fit_episode ext (a0, l0) ex = Inr (a1, l1)" by simp
  have "int (length (batch_training_inputs l0)) = batch_counter l0 \<and>
         length (message_probs_storage l0) = length (batch_training_inputs l0) \<and>
         length (rewards_storage l0) = length (batch_training_inputs l0) \<and>
         config_dict a0 = config_dict ?ai"
    by (rule fit_loop_accumulator [OF run]) simp_all
  with fit_episode_frame [OF e] have inv:
    "int (length (batch_training_inputs l1)) = batch_counter l1"
    "int (length (message_probs_storage l1)) = batch_counter l1"
    "int (length (rewards_storage l1)) = batch_counter l1"
    "config_dict a1 = config_dict a" "batch_counter l1 = batch_counter l0 + 1"
    by simp_all
  {
    assume c: "batch_counter l1 = batch_size (config_dict a1) \<or> 1 \<le> batch_size (config_dict a1)"
    have "batch_counter l1 \<le> batch_size (config_dict a1)"
    proof (cases "batch_counter l1 = batch_size (config_dict a1)")
      case True
      then show ?thesis by simp
    next
      case False
      with c inv have pos: "batch_counter ?li < batch_size (config_dict ?ai)" by simp
      have "int (length (batch_training_inputs ?li)) = batch_counter ?li" by simp
      from fit_loop_batches [OF run this pos] have "batch_counter l0 < batch_size (config_dict a)"
        by auto
      with inv show ?thesis by simp
    qed
    with inv show "int (length (batch_training_inputs l1)) \<le> batch_size (config_dict a1)"
      and "int (length (message_probs_storage l1)) \<le> batch_size (config_dict a1)"
      and "int (length (rewards_storage l1)) \<le> batch_size (config_dict a1)"
      by simp_all
  }
  {
    fix a2 l2
    assume t: "batch_counter l1 = batch_size (config_dict a1) \<and>
      fit_train ext (a1, l1) = Inr (a2, l2)"
    then have "fit_train ext (a1, l1) = Inr (a2, l2)" by simp
    from fit_train_frame [OF this] t
    show "batch_training_inputs l2 = []" and "message_probs_storage l2 = []"
      and "rewards_storage l2 = []" and "batch_counter l2 = 0"
      by simp_all
  }
next
  assume h: "base_fit pol b base_seen = Inr b0 \<and>
    sample_from_networks_on_batch pol b0 base_ex = Inr b1"
  assume c: "self_batch_counter b1 = batch_size (base_config_dict b1) \<or>
       1 \<le> batch_size (base_config_dict b1)"
  let ?bi = "b\<lparr>total_training_reward := 0, self_batch_counter := 0\<rparr>"
  from h have run: "base_fit_loop pol ?bi base_seen = Inr b0" by (simp add: base_fit_def)
  from h have e: "sample_from_networks_on_batch pol b0 base_ex = Inr b1" by simp
  note ef = sample_from_networks_frame [OF e]
  show "self_batch_counter b1 \<le> batch_size (base_config_dict b1)"
  proof (cases "self_batch_counter b1 = batch_size (base_config_dict b1)")
    case True
    then show ?thesis by simp
  next
    case False
    with c have pos: "1 \<le> batch_size (base_config_dict b1)" by simp
    from base_fit_loop_config [OF run] ef have cfg: "base_config_dict b1 = base_config_dict ?bi"
      by simp
    with pos have p: "0 \<le> self_batch_counter ?bi"
      "self_batch_counter ?bi < batch_size (base_config_dict ?bi)" by simp_all
    from base_fit_loop_counts [OF run p] cfg
    have "self_batch_counter b0 < batch_size (base_config_dict b1)" by simp
    with ef show ?thesis by simp
  qed
next
  fix b2
  assume "self_batch_counter b1 = batch_size (base_config_dict b1) \<and>
           base_fit_train pol b1 = Inr b2"
  then have "train_networks_on_batch pol b1 = Inr b2"
    by (auto simp: base_fit_train_def split: if_splits)
  from train_networks_frame [OF this] show "self_batch_counter b2 = 0" by simp
qed

lemma scenario_trigger_run:
  "(case fit scenario_backend scenario_agents [scenario_data ! 0] of
      Inl e \<Rightarrow> None
    | Inr st \<Rightarrow>
       (case fit_episode scenario_backend st (scenario_data ! 1) of
          Inl e \<Rightarrow> None
        | Inr st1 \<Rightarrow>
           (case fit_train scenario_backend st1 of
              Inl e \<Rightarrow> None
            | Inr st2 \<Rightarrow>
                Some (batch_counter (snd st1), batch_size (config_dict (fst st1)),
                      length (batch_training_inputs (snd st1)))))) =
   Some (2, 2, 2)"
  by code_simp

lemma scenario_base_trigger_run:
  "(case base_fit scenario_policies scenario_base_agents [scenario_onehot_data ! 0] of
      Inl e \<Rightarrow> None
    | Inr b0 \<Rightarrow>
       (case sample_from_networks_on_batch scenario_policies b0 (scenario_onehot_data ! 1) of
          Inl e \<Rightarrow> None
        | Inr b1 \<Rightarrow>
           (case base_fit_train scenario_policies b1 of
              Inl e \<Rightarrow> None
            | Inr b2 \<Rightarrow>
                Some (self_batch_counter b1, batch_size (base_config_dict b1))))) =
   Some (2, 2)"
  by code_simp

theorem accumulator_bounded_at_trigger_and_empty_after_witness:
  "(\<exists>st a1 l1 a2 l2.
      fit scenario_backend scenario_agents [scenario_data ! 0] = Inr st \<and>
      fit_episode scenario_backend st (scenario_data ! 1) = Inr (a1, l1) \<and>
      batch_counter l1 = batch_size (config_dict a1) \<and>
      fit_train scenario_backend (a1, l1) = Inr (a2, l2) \<and>
      length (batch_training_inputs l1) = 2 \<and>
      int (length (batch_training_inputs l1)) \<le> batch_size (config_dict a1) \<and>
      batch_training_inputs l2 = [] \<and> message_probs_storage l2 = [] \<and>
      rewards_storage l2 = [] \<and> batch_counter l2 = 0) \<and>
   (\<exists>b0 b1 b2.
      base_fit scenario_policies scenario_base_agents [scenario_onehot_data ! 0] = Inr b0 \<and>
      sample_from_networks_on_batch scenario_policies b0 (scenario_onehot_data ! 1) = Inr b1 \<and>
      self_batch_counter b1 = batch_size (base_config_dict b1) \<and>
      base_fit_train scenario_policies b1 = Inr b2 \<and>
      self_batch_counter b1 \<le> batch_size (base_config_dict b1) \<and>
      self_batch_counter b2 = 0)"
proof -
  from scenario_trigger_run obtain st a1 l1 a2 l2 where
    f: "fit scenario_backend scenario_agents [scenario_data ! 0] = Inr st" and
    e: "fit_episode scenario_backend st (scenario_data ! 1) = Inr (a1, l1)" and
    t: "fit_train scenario_backend (a1, l1) = Inr (a2, l2)" and
    c: "batch_counter l1 = batch_size (config_dict a1)" and
    n: "length (batch_training_inputs l1) = 2"
    by (auto split: sum.splits)
  from scenario_base_trigger_run obtain b0 b1 b2 where
    bf: "base_fit scenario_policies scenario_base_agents [scenario_onehot_data ! 0] = Inr b0" and
    be: "sample_from_networks_on_batch scenario_policies b0 (scenario_onehot_data ! 1) = Inr b1" and
    bt: "base_fit_train scenario_policies b1 = Inr b2" and
    bc: "self_batch_counter b1 = batch_size (base_config_dict b1)"
    by (auto split: sum.splits)
  note inst = accumulator_bounded_at_trigger_and_empty_after
    [of scenario_backend scenario_agents "[scenario_data ! 0]" st "scenario_data ! 1" a1 l1
      scenario_policies scenario_base_agents "[scenario_onehot_data ! 0]" b0
      "scenario_onehot_data ! 1" b1]
  from inst f e c t have 1:
    "int (length (batch_training_inputs l1)) \<le> batch_size (config_dict a1)"
    "batch_training_inputs l2 = []" "message_probs_storage l2 = []"
    "rewards_storage l2 = []" "batch_counter l2 = 0"
    by blast+
  from inst bf be bc bt have 2:
    "self_batch_counter b1 \<le> batch_size (base_config_dict b1)" "self_batch_counter b2 = 0"
    by blast+
  from f e c t n 1 bf be bc bt 2 show ?thesis by blast
qed

lemma fit_training_stats_length:
  assumes "fit ext a data = Inr (a', l')"
  shows "\<exists>entries. training_stats a' = Some entries \<and>
           length entries = (if save_training_stats a then length data else 0)"
proof -
  from assms have run: "fit_loop ext (a\<lparr>training_stats := Some []\<rparr>,
      \<lparr>total_reward = 0, batch_counter = 0, batch_training_inputs = [],
       message_probs_storage = [], rewards_storage = []\<rparr>) data = Inr (a', l')"
    by (simp add: fit_def fit_init_def)
  from fit_loop_training_stats [OF run, of "[]"] show ?thesis by simp
qed

section \<open>Length of the statistics logs\<close>

text \<open>
  Claim C7 as stated fails when \<^verbatim>\<open>save_training_stats\<close> is unset: fit then processes
  the two examples of the scenario and leaves the training log empty.
\<close>

theorem fit_logs_nothing_without_save_training_stats:
  "length scenario_data = 2 \<and>
   map_sum id (training_stats \<circ> fst)
     (fit scenario_backend (scenario_agents\<lparr>save_training_stats := False\<rparr>) scenario_data) =
   Inr (Some [])"
  by code_simp

text \<open>
  Claim C7, amended. For every data set of \<open>n\<close> examples: after a fit that returns, with
  \<^verbatim>\<open>save_training_stats\<close> set, the training log contains exactly \<open>n\<close> records; after a
  predict that returns, with \<^verbatim>\<open>save_training_stats\<close> and \<^verbatim>\<open>save_testing_stats\<close> both
  set, the testing log contains exactly \<open>n\<close> records; and after \<^verbatim>\<open>BaseAgents.fit\<close>
  on an object whose training log is empty, with \<^verbatim>\<open>save_training_stats\<close> set, the
  training log contains exactly \<open>n\<close> records.
\<close>

theorem statistics_log_lengths:
  "(fit ext a train_data = Inr (a', l') \<and> save_training_stats a \<longrightarrow>
      (\<exists>entries. training_stats a' = Some entries \<and> length entries = length train_data)) \<and>
   (predict ext a test_data = Inr a'' \<and> save_training_stats a \<and> save_testing_stats a \<longrightarrow>
      (\<exists>entries. testing_stats a'' = Some entries \<and> length entries = length test_data)) \<and>
   (base_fit pol b base_data = Inr b' \<and> base_save_training_stats b \<and>
    base_training_stats b = [] \<longrightarrow>
      length (base_training_stats b') = length base_data)"
proof (intro conjI impI)
  assume "fit ext a train_data = Inr (a', l') \<and> save_training_stats a"
  with fit_training_stats_length [of ext a train_data a' l']
  show "\<exists>entries. training_stats a' = Some entries \<and> length entries = length train_data"
    by simp
next
  assume "predict ext a test_data = Inr a'' \<and> save_training_stats a \<and> save_testing_stats a"
  with predict_testing_stats_length [of ext a test_data a'']
  show "\<exists>entries. testing_stats a'' = Some entries \<and> length entries = length test_data"
    by simp
next
  assume h: "base_fit pol b base_data = Inr b' \<and> base_save_training_stats b \<and>
    base_training_stats b = []"
  then have "base_fit_loop pol (b\<lparr>total_training_reward := 0, self_batch_counter := 0\<rparr>)
      base_data = Inr b'"
    by (simp add: base_fit_def)
  from base_fit_loop_training_stats [OF this] h
  show "length (base_training_stats b') = length base_data" by simp
qed

theorem statistics_log_lengths_witness:
  "save_training_stats scenario_agents \<and> save_testing_stats scenario_agents \<and>
   base_save_training_stats scenario_base_agents \<and>
   base_training_stats scenario_base_agents = [] \<and>
   (\<exists>a' l' entries. fit scenario_backend scenario_agents scenario_data = Inr (a', l') \<and>
      training_stats a' = Some entries \<and> length entries = 2) \<and>
   (\<exists>a'' entries. predict scenario_backend scenario_agents scenario_data = Inr a'' \<and>
      testing_stats a'' = Some entries \<and> length entries = 2) \<and>
   (\<exists>b'. base_fit scenario_policies scenario_base_agents scenario_onehot_data = Inr b' \<and>
      length (base_training_stats b') = 2)"
proof -
  have flags: "save_training_stats scenario_agents" "save_testing_stats scenario_agents"
    "base_save_training_stats scenario_base_agents"
    "base_training_stats scenario_base_agents = []"
    by (simp_all add: scenario_agents_def scenario_base_agents_def)
  have len: "length scenario_data = 2" "length scenario_onehot_data = 2"
    by (simp_all add: scenario_data_def scenario_onehot_data_def)
  from map_sum_Inr_D [OF scenario_fit_run] obtain a' l' where
    f: "fit scenario_backend scenario_agents scenario_data = Inr (a', l')" by auto
  from map_sum_Inr_D [OF scenario_predict_run] obtain a'' where
    p: "predict scenario_backend scenario_agents scenario_data = Inr a''" by auto
  from map_sum_Inr_D [OF scenario_base_fit_run] obtain b' where
    bf: "base_fit scenario_policies scenario_base_agents scenario_onehot_data = Inr b'" by auto
  note inst = statistics_log_lengths
    [of scenario_backend scenario_agents scenario_data a' l' scenario_data a''
      scenario_policies scenario_base_agents scenario_onehot_data b']
  from inst f flags len have 1:
    "\<exists>entries. training_stats a' = Some entries \<and> length entries = 2" by simp
  from inst p flags len have 2:
    "\<exists>entries. testing_stats a'' = Some entries \<and> length entries = 2" by simp
  from inst bf flags len have 3: "length (base_training_stats b') = 2" by simp
  from flags f p bf 1 2 3 show ?thesis by blast
qed

section \<open>The flag that gates the testing log\<close>

text \<open>
  Claim C9. In \<^verbatim>\<open>IndependentFullyConnectedAgents.predict\<close> the testing log is gated by
  \<^verbatim>\<open>save_training_stats\<close>, not by \<^verbatim>\<open>save_testing_stats\<close>: after a predict that returns,
  the log has one record per example when \<^verbatim>\<open>save_training_stats\<close> is set and is the
  empty list when it is unset, whatever \<^verbatim>\<open>save_testing_stats\<close> is; and setting
  \<^verbatim>\<open>save_testing_stats\<close> to any value changes nothing in what predict does but that
  flag itself.
\<close>

theorem predict_log_gated_by_save_training_stats:
  "(predict ext a test_data = Inr a' \<longrightarrow>
      (\<exists>entries. testing_stats a' = Some entries \<and>
         length entries = (if save_training_stats a then length test_data else 0)) \<and>
      (\<not> save_training_stats a \<longrightarrow> testing_stats a' = Some [])) \<and>
   predict ext (a\<lparr>save_testing_stats := flag\<rparr>) test_data =
     map_sum id (\<lambda>r. r\<lparr>save_testing_stats := flag\<rparr>) (predict ext a test_data)"
proof (intro conjI impI)
  assume p: "predict ext a test_data = Inr a'"
  from predict_testing_stats_length [OF p]
  show "\<exists>entries. testing_stats a' = Some entries \<and>
         length entries = (if save_training_stats a then length test_data else 0)" .
  assume "\<not> save_training_stats a"
  with predict_testing_stats_length [OF p] show "testing_stats a' = Some []" by auto
next
  show "predict ext (a\<lparr>save_testing_stats := flag\<rparr>) test_data =
     map_sum id (\<lambda>r. r\<lparr>save_testing_stats := flag\<rparr>) (predict ext a test_data)"
    by (rule predict_ignores_save_testing_stats)
qed

theorem predict_log_gated_by_save_training_stats_witness:
  "\<not> save_training_stats (scenario_agents\<lparr>save_training_stats := False\<rparr>) \<and>
   save_testing_stats (scenario_agents\<lparr>save_training_stats := False\<rparr>) \<and>
   length scenario_data = 2 \<and>
   (\<exists>a'. predict scenario_backend (scenario_agents\<lparr>save_training_stats := False\<rparr>)
            scenario_data = Inr a' \<and> testing_stats a' = Some [])"
proof -
  have flags: "\<not> save_training_stats (scenario_agents\<lparr>save_training_stats := False\<rparr>)"
    "save_testing_stats (scenario_agents\<lparr>save_training_stats := False\<rparr>)"
    by (simp_all add: scenario_agents_def)
  have len: "length scenario_data = 2" by (simp add: scenario_data_def)
  from map_sum_Inr_D [OF scenario_predict_unsaved_run] obtain a' where
    p: "predict scenario_backend (scenario_agents\<lparr>save_training_stats := False\<rparr>)
          scenario_data = Inr a'" by auto
  from predict_log_gated_by_save_training_stats
    [of scenario_backend "scenario_agents\<lparr>save_training_stats := False\<rparr>" scenario_data a']
    p flags
  have "testing_stats a' = Some []" by blast
  with flags len p show ?thesis by blast
qed

lemma base_predict_Inr:
  assumes "base_predict pol b data = Inr b'"
  obtains t' where
    "base_predict_loop pol (b\<lparr>base_testing_stats := []\<rparr>, 0) data = Inr (b', t')"
  using assms by (auto simp: base_predict_def split: sum.splits)

section \<open>What predict calls and what it leaves unchanged\<close>

text \<open>
  Claim C6 as stated fails for \<^verbatim>\<open>IndependentFullyConnectedAgents\<close>: the listener's
  path in predict is \<^verbatim>\<open>listener_policy\<close>, a draw of \<^verbatim>\<open>np.random.randint\<close>, not a
  deterministic inference. On the scenario, two objects with the same model, flags and
  configuration that differ in the state of the random generator only log different
  chosen targets and rewards for the same data.
\<close>

theorem predict_listener_choice_is_random:
  "speaker_model (scenario_agents\<lparr>np_random := 1\<rparr>) = speaker_model scenario_agents \<and>
   map_sum id testing_stats (predict scenario_backend scenario_agents scenario_data) =
     Inr (Some [\<lparr>reward = 1, input = [1, 0], message = ''2#3#1'', chosen_target = [1, 0]\<rparr>,
                \<lparr>reward = 1, input = [0, 1], message = ''2#3#1'', chosen_target = [0, 1]\<rparr>]) \<and>
   map_sum id testing_stats
     (predict scenario_backend (scenario_agents\<lparr>np_random := 1\<rparr>) scenario_data) =
     Inr (Some [\<lparr>reward = 0, input = [1, 0], message = ''2#3#1'', chosen_target = [0, 1]\<rparr>,
                \<lparr>reward = 0, input = [0, 1], message = ''2#3#1'', chosen_target = [1, 1]\<rparr>]) \<and>
   map_sum id calls (predict scenario_backend scenario_agents scenario_data) =
     Inr [Call_infer_from_speaker_policy, Call_listener_policy,
          Call_infer_from_speaker_policy, Call_listener_policy]"
  by code_simp

text \<open>
  Claim C6, amended. For every data set, a predict that returns has called neither the
  sample operation nor a training step, and has left the model parameters and the
  training-side state unchanged. In \<^verbatim>\<open>IndependentFullyConnectedAgents\<close> its calls are,
  per example, \<^verbatim>\<open>infer_from_speaker_policy\<close> and then \<^verbatim>\<open>listener_policy\<close> (the random
  choice that fit uses as well); the speaker model, the training log, the batch
  attributes, the flags and the configuration are as before. In \<^verbatim>\<open>BaseAgents\<close> its
  calls are, per example, the speaker's and the listener's infer methods; the training
  log, the training reward, the batch counter, the flags and the configuration are as
  before, and the two policy objects are as before whenever their infer methods leave
  them so.
\<close>

theorem predict_calls_infer_only_and_keeps_training_state:
  "(predict ext a test_data = Inr a' \<longrightarrow>
      calls a' = calls a @
        concat (replicate (length test_data)
          [Call_infer_from_speaker_policy, Call_listener_policy]) \<and>
      trained_batches (calls a') = trained_batches (calls a) \<and>
      speaker_model a' = speaker_model a \<and> training_stats a' = training_stats a \<and>
      self_m_probs a' = self_m_probs a \<and> self_r a' = self_r a \<and>
      self_X a' = self_X a \<and> self_Y a' = self_Y a \<and>
      save_training_stats a' = save_training_stats a \<and>
      save_testing_stats a' = save_testing_stats a \<and> config_dict a' = config_dict a) \<and>
   (base_predict pol b base_data = Inr b' \<longrightarrow>
      base_calls b' = base_calls b @
        concat (replicate (length base_data) [Speaker_infer, Listener_infer]) \<and>
      base_training_stats b' = base_training_stats b \<and>
      total_training_reward b' = total_training_reward b \<and>
      self_batch_counter b' = self_batch_counter b \<and>
      base_save_training_stats b' = base_save_training_stats b \<and>
      base_save_testing_stats b' = base_save_testing_stats b \<and>
      base_config_dict b' = base_config_dict b \<and>
      ((\<forall>sp x res sp'. speaker_infer_from_policy pol sp x = Inr (res, sp') \<longrightarrow> sp' = sp) \<longrightarrow>
         base_speaker_model b' = base_speaker_model b) \<and>
      ((\<forall>lp msg cands res lp'.
           infer_from_listener_policy pol lp msg cands = Inr (res, lp') \<longrightarrow> lp' = lp) \<longrightarrow>
         base_listener_model b' = base_listener_model b))"
proof (rule conjI; rule impI)
  assume "predict ext a test_data = Inr a'"
  then obtain t' where
    l: "predict_loop ext (a\<lparr>testing_stats := Some []\<rparr>, 0) test_data = Inr (a', t')"
    by (rule predict_Inr)
  note fr = predict_loop_frame [OF l]
  from fr have k: "calls a' = calls a @
        concat (replicate (length test_data)
          [Call_infer_from_speaker_policy, Call_listener_policy])" by simp
  have "trained_batches (concat (replicate n
          [Call_infer_from_speaker_policy, Call_listener_policy])) = []" for n
    by (induction n) simp_all
  with k have tb: "trained_batches (calls a') = trained_batches (calls a)"
    by (simp add: trained_batches_append)
  from fr k tb
  show "calls a' = calls a @
        concat (replicate (length test_data)
          [Call_infer_from_speaker_policy, Call_listener_policy]) \<and>
      trained_batches (calls a') = trained_batches (calls a) \<and>
      speaker_model a' = speaker_model a \<and> training_stats a' = training_stats a \<and>
      self_m_probs a' = self_m_probs a \<and> self_r a' = self_r a \<and>
      self_X a' = self_X a \<and> self_Y a' = self_Y a \<and>
      save_training_stats a' = save_training_stats a \<and>
      save_testing_stats a' = save_testing_stats a \<and> config_dict a' = config_dict a"
    by simp
next
  assume "base_predict pol b base_data = Inr b'"
  then obtain t' where
    l: "base_predict_loop pol (b\<lparr>base_testing_stats := []\<rparr>, 0) base_data = Inr (b', t')"
    by (rule base_predict_Inr)
  from base_predict_loop_frame [OF l]
  show "base_calls b' = base_calls b @
        concat (replicate (length base_data) [Speaker_infer, Listener_infer]) \<and>
      base_training_stats b' = base_training_stats b \<and>
      total_training_reward b' = total_training_reward b \<and>
      self_batch_counter b' = self_batch_counter b \<and>
      base_save_training_stats b' = base_save_training_stats b \<and>
      base_save_testing_stats b' = base_save_testing_stats b \<and>
      base_config_dict b' = base_config_dict b \<and>
      ((\<forall>sp x res sp'. speaker_infer_from_policy pol sp x = Inr (res, sp') \<longrightarrow> sp' = sp) \<longrightarrow>
         base_speaker_model b' = base_speaker_model b) \<and>
      ((\<forall>lp msg cands res lp'.
           infer_from_listener_policy pol lp msg cands = Inr (res, lp') \<longrightarrow> lp' = lp) \<longrightarrow>
         base_listener_model b' = base_listener_model b)"
    by simp
qed

theorem predict_calls_infer_only_and_keeps_training_state_witness:
  "(\<exists>a'. predict scenario_backend scenario_agents scenario_data = Inr a' \<and>
      calls a' = [Call_infer_from_speaker_policy, Call_listener_policy,
                  Call_infer_from_speaker_policy, Call_listener_policy] \<and>
      speaker_model a' = 0 \<and> training_stats a' = None) \<and>
   (\<forall>sp x. speaker_infer_from_policy scenario_policies sp x =
      Inr ((''0#2'', [1 / 2, 1 / 4]), sp)) \<and>
   (\<forall>lp msg cands. infer_from_listener_policy scenario_policies lp msg cands = Inr (1, lp)) \<and>
   (\<exists>b'. base_predict scenario_policies scenario_base_agents scenario_onehot_data = Inr b' \<and>
      base_calls b' = [Speaker_infer, Listener_infer, Speaker_infer, Listener_infer] \<and>
      base_training_stats b' = [] \<and> self_batch_counter b' = 0 \<and>
      base_speaker_model b' = 0 \<and> base_listener_model b' = 0)"
proof -
  from map_sum_Inr_D [OF scenario_predict_run] obtain a' where
    p: "predict scenario_backend scenario_agents scenario_data = Inr a'" by auto
  from map_sum_Inr_D [OF scenario_base_predict_run] obtain b' where
    bp: "base_predict scenario_policies scenario_base_agents scenario_onehot_data = Inr b'"
    by auto
  have pure1: "\<forall>sp x res sp'.
      speaker_infer_from_policy scenario_policies sp x = Inr (res, sp') \<longrightarrow> sp' = sp"
    by (simp add: scenario_policies_def)
  have pure2: "\<forall>lp msg cands res lp'.
      infer_from_listener_policy scenario_policies lp msg cands = Inr (res, lp') \<longrightarrow> lp' = lp"
    by (simp add: scenario_policies_def)
  have len: "length scenario_data = 2" "length scenario_onehot_data = 2"
    by (simp_all add: scenario_data_def scenario_onehot_data_def)
  note inst = predict_calls_infer_only_and_keeps_training_state
    [of scenario_backend scenario_agents scenario_data a' scenario_policies
      scenario_base_agents scenario_onehot_data b']
  from inst p len have 1:
    "calls a' = [Call_infer_from_speaker_policy, Call_listener_policy,
                  Call_infer_from_speaker_policy, Call_listener_policy]"
    "speaker_model a' = 0" "training_stats a' = None"
    by (simp_all add: scenario_agents_def numeral_2_eq_2)
  from inst bp len pure1 pure2 have 2:
    "base_calls b' = [Speaker_infer, Listener_infer, Speaker_infer, Listener_infer]"
    "base_training_stats b' = []" "self_batch_counter b' = 0"
    "base_speaker_model b' = 0" "base_listener_model b' = 0"
    by (simp_all add: scenario_base_agents_def numeral_2_eq_2)
  have given: "\<forall>sp x. speaker_infer_from_policy scenario_policies sp x =
      Inr ((''0#2'', [1 / 2, 1 / 4]), sp)"
    "\<forall>lp msg cands. infer_from_listener_policy scenario_policies lp msg cands = Inr (1, lp)"
    by (simp_all add: scenario_policies_def)
  from p 1 given bp 2 show ?thesis by blast
qed

section \<open>Runs that return\<close>

text \<open>
  The theorems on fit and predict speak of runs that return. These lemmas give
  conditions under which they do: the library calls return (the model a vector of
  \<open>alphabet_size\<close> probabilities that the random choice accepts), every target input has
  \<open>speaker_dim\<close> entries and every candidate list is non-empty.
\<close>

lemma listener_policy_returns:
  assumes "candidates \<noteq> []"
    and "\<forall>g n. 0 < n \<longrightarrow> (\<exists>k g'. random_randint ext g n = Inr (k, g') \<and> k < n)"
  shows "\<exists>chosen a'. listener_policy ext a msg candidates = Inr (chosen, a') \<and>
           0 \<le> chosen \<and> chosen < int (length candidates)"
proof -
  from assms(1) have "0 < length candidates" by simp
  with assms(2) obtain k g' where
    "random_randint ext (np_random a) (length candidates) = Inr (k, g')" "k < length candidates"
    by blast
  with assms(1) show ?thesis by (simp add: listener_policy_def)
qed

lemma predict_loop_returns:
  assumes "\<forall>ex \<in> set data. np_reshape_ok (length (fst ex)) 1 (speaker_dim (config_dict a)) \<and>
             (\<exists>probs. model_predict ext (speaker_model a) (fst ex) = Inr probs) \<and>
             fst (snd ex) \<noteq> []"
    and "\<forall>g n. 0 < n \<longrightarrow> (\<exists>k g'. random_randint ext g n = Inr (k, g') \<and> k < n)"
    and "testing_stats a \<noteq> None"
  shows "\<exists>st. predict_loop ext (a, t) data = Inr st"
  using assms(1,3)
proof (induction data arbitrary: a t)
  case Nil
  show ?case by simp
next
  case (Cons ex data)
  obtain x cands tc where ex: "ex = (x, cands, tc)" by (cases ex) auto
  from Cons.prems(1) ex have r: "np_reshape_ok (length x) 1 (speaker_dim (config_dict a))"
    and c: "cands \<noteq> []" by simp_all
  from Cons.prems(1) ex obtain probs where
    mp: "model_predict ext (speaker_model a) x = Inr probs" by auto
  from infer_returns [OF r mp] obtain msg mps a1 where
    i: "infer_from_speaker_policy ext a x = Inr ((msg, mps), a1)" by blast
  note a1 = infer_frame [OF i]
  from listener_policy_returns [OF c assms(2)] obtain chosen a2 where
    li: "listener_policy ext a1 msg cands = Inr (chosen, a2)" and
    ch: "0 \<le> chosen" "chosen < int (length cands)" by blast
  from listener_frame [OF li] obtain g2 where
    a2: "a2 = a1\<lparr>np_random := g2, calls := calls a1 @ [Call_listener_policy]\<rparr>" by blast
  from ch have gi: "py_getitem cands chosen = Inr (cands ! nat chosen)"
    by (simp add: py_getitem_def)
  from Cons.prems(2) obtain entries where ts: "testing_stats a = Some entries" by auto
  from ex i li gi ts a1 a2 obtain a3 t3 where
    e: "predict_episode ext (a, t) ex = Inr (a3, t3)"
    by (cases "save_training_stats a") (simp_all add: predict_episode_def Let_def)
  note ef = predict_episode_frame [OF e]
  from predict_episode_testing_stats [OF e ts] have ts3: "testing_stats a3 \<noteq> None" by auto
  from Cons.prems(1) ef have
    "\<forall>ex \<in> set data. np_reshape_ok (length (fst ex)) 1 (speaker_dim (config_dict a3)) \<and>
       (\<exists>probs. model_predict ext (speaker_model a3) (fst ex) = Inr probs) \<and>
       fst (snd ex) \<noteq> []"
    by simp
  from Cons.IH [OF this ts3, of t3] e show ?case by simp
qed

lemma predict_returns:
  assumes "\<forall>ex \<in> set data. np_reshape_ok (length (fst ex)) 1 (speaker_dim (config_dict a)) \<and>
             (\<exists>probs. model_predict ext (speaker_model a) (fst ex) = Inr probs) \<and>
             fst (snd ex) \<noteq> []"
    and "\<forall>g n. 0 < n \<longrightarrow> (\<exists>k g'. random_randint ext g n = Inr (k, g') \<and> k < n)"
  shows "\<exists>a'. predict ext a data = Inr a'"
proof -
  from assms(1) have
    "\<forall>ex \<in> set data.
       np_reshape_ok (length (fst ex)) 1
         (speaker_dim (config_dict (a\<lparr>testing_stats := Some []\<rparr>))) \<and>
       (\<exists>probs. model_predict ext (speaker_model (a\<lparr>testing_stats := Some []\<rparr>)) (fst ex) =
          Inr probs) \<and>
       fst (snd ex) \<noteq> []"
    by simp
  from predict_loop_returns [OF this assms(2), of 0] obtain st where
    "predict_loop ext (a\<lparr>testing_stats := Some []\<rparr>, 0) data = Inr st" by auto
  then show ?thesis by (cases st) (simp add: predict_def)
qed

lemma np_vstack_uniform:
  "rows \<noteq> [] \<Longrightarrow> \<forall>row \<in> set rows. length row = k \<Longrightarrow> np_vstack rows = Inr rows"
  by (cases rows) (auto simp: np_vstack_def)

lemma length_concat_uniform:
  "\<forall>row \<in> set rows. length row = k \<Longrightarrow> length (concat rows) = length rows * k"
  by (induction rows) simp_all

lemma train_returns:
  assumes "target_inputs \<noteq> []"
    and "\<forall>row \<in> set target_inputs. int (length row) = speaker_dim (config_dict a)"
    and "\<forall>row \<in> set message_probs. length row = m"
    and "length message_probs = length target_inputs"
    and "length rewards = length target_inputs"
    and "int (length target_inputs) = batch_size (config_dict a)"
    and "\<forall>w X Y. \<exists>w'. model_train_on_batch ext w X Y = Inr w'"
  shows "\<exists>a'. train_speaker_policy_on_batch ext a target_inputs message_probs rewards = Inr a'"
proof -
  let ?sd = "speaker_dim (config_dict a)"
  from assms(1,4) have ne: "message_probs \<noteq> []" by auto
  from assms(1,5) have re: "rewards \<noteq> []" by auto
  from np_vstack_uniform [OF ne assms(3)] have v1: "np_vstack message_probs = Inr message_probs" .
  from assms(1,2) have sd: "0 \<le> ?sd" by (cases target_inputs) auto
  from assms(2) sd have u: "\<forall>row \<in> set target_inputs. length row = nat ?sd" by auto
  from np_vstack_uniform [OF assms(1) u] have v2: "np_vstack target_inputs = Inr target_inputs" .
  from length_concat_uniform [OF u] have
    "int (length (concat target_inputs)) = int (length target_inputs) * int (nat ?sd)"
    by simp
  with sd assms(6) have n: "int (length (concat target_inputs)) =
      batch_size (config_dict a) * ?sd" by simp
  from assms(1,6) have bs: "1 \<le> batch_size (config_dict a)" by (cases target_inputs) auto
  from n bs sd have ok: "np_reshape_ok (length (concat target_inputs))
      (batch_size (config_dict a)) ?sd"
    by (simp add: np_reshape_ok_def)
  from assms(7) obtain w' where
    "model_train_on_batch ext (speaker_model a) target_inputs
       (map (\<lambda>(rw, ps). real_of_int rw * sum_list ps) (zip rewards message_probs)) = Inr w'"
    by blast
  with v1 v2 re ok show ?thesis
    by (simp add: train_speaker_policy_on_batch_def Let_def)
qed

lemma fit_episode_returns:
  assumes "int (length x) = speaker_dim (config_dict a)" and "cands \<noteq> []"
    and "\<exists>probs. model_predict ext (speaker_model a) x = Inr probs \<and>
           int (length probs) = alphabet_size (config_dict a) \<and>
           choice_returns ext (nat (alphabet_size (config_dict a))) (normalized_probs probs)"
    and "0 < alphabet_size (config_dict a)"
    and "\<forall>g n. 0 < n \<longrightarrow> (\<exists>k g'. random_randint ext g n = Inr (k, g') \<and> k < n)"
    and "training_stats a \<noteq> None"
  shows "\<exists>a' l'. fit_episode ext (a, l) (x, cands, tc) = Inr (a', l') \<and>
           training_stats a' \<noteq> None \<and>
           message_probs_storage l' = message_probs_storage l @
             [last (message_probs_storage l')] \<and>
           length (last (message_probs_storage l')) = nat (max_message_length (config_dict a))"
proof -
  from assms(1) have r: "np_reshape_ok (length x) 1 (speaker_dim (config_dict a))"
    by (simp add: np_reshape_ok_def)
  from assms(3) obtain probs where
    mp: "model_predict ext (speaker_model a) x = Inr probs" and
    lp: "int (length probs) = alphabet_size (config_dict a)" and
    cr: "choice_returns ext (nat (alphabet_size (config_dict a))) (normalized_probs probs)"
    by blast
  from sample_returns [OF r mp lp assms(4) cr] obtain msg mps a1 where
    s: "sample_speaker_policy_for_message ext a x = Inr ((msg, mps), a1)" by blast
  from sample_message_shape [OF s] have lm:
    "length mps = nat (max_message_length (config_dict a))" by simp
  from sample_frame [OF s] obtain g1 where
    a1: "a1 = a\<lparr>np_random := g1, calls := calls a @ [Call_sample_speaker_policy_for_message]\<rparr>"
    by blast
  from listener_policy_returns [OF assms(2) assms(5)] obtain chosen a2 where
    li: "listener_policy ext a1 msg cands = Inr (chosen, a2)" and
    ch: "0 \<le> chosen" "chosen < int (length cands)" by blast
  from listener_frame [OF li] obtain g2 where
    a2: "a2 = a1\<lparr>np_random := g2, calls := calls a1 @ [Call_listener_policy]\<rparr>" by blast
  from ch have gi: "py_getitem cands chosen = Inr (cands ! nat chosen)"
    by (simp add: py_getitem_def)
  from assms(6) obtain entries where ts: "training_stats a = Some entries" by auto
  from s li gi ts a1 a2 lm show ?thesis
    by (cases "save_training_stats a") (simp_all add: fit_episode_def Let_def)
qed

lemma fit_loop_returns:
  assumes "\<forall>ex \<in> set data. int (length (fst ex)) = speaker_dim (config_dict a) \<and>
             fst (snd ex) \<noteq> []"
    and "\<forall>w x. \<exists>probs. model_predict ext w x = Inr probs \<and>
           int (length probs) = alphabet_size (config_dict a) \<and>
           choice_returns ext (nat (alphabet_size (config_dict a))) (normalized_probs probs)"
    and "0 < alphabet_size (config_dict a)"
    and "\<forall>g n. 0 < n \<longrightarrow> (\<exists>k g'. random_randint ext g n = Inr (k, g') \<and> k < n)"
    and "\<forall>w X Y. \<exists>w'. model_train_on_batch ext w X Y = Inr w'"
    and "training_stats a \<noteq> None"
    and "int (length (batch_training_inputs l)) = batch_counter l"
    and "length (message_probs_storage l) = length (batch_training_inputs l)"
    and "length (rewards_storage l) = length (batch_training_inputs l)"
    and "\<forall>row \<in> set (batch_training_inputs l). int (length row) = speaker_dim (config_dict a)"
    and "\<forall>row \<in> set (message_probs_storage l).
           length row = nat (max_message_length (config_dict a))"
  shows "\<exists>st. fit_loop ext (a, l) data = Inr st"
  using assms
proof (induction data arbitrary: a l)
  case Nil
  show ?case by simp
next
  case (Cons ex data)
  obtain x cands tc where ex: "ex = (x, cands, tc)" by (cases ex) auto
  from Cons.prems(1) ex have x: "int (length x) = speaker_dim (config_dict a)"
    and c: "cands \<noteq> []" by simp_all
  from Cons.prems(2) have m: "\<exists>probs. model_predict ext (speaker_model a) x = Inr probs \<and>
           int (length probs) = alphabet_size (config_dict a) \<and>
           choice_returns ext (nat (alphabet_size (config_dict a))) (normalized_probs probs)"
    by blast
  from fit_episode_returns [OF x c m Cons.prems(3) Cons.prems(4) Cons.prems(6), of l tc]
  obtain a1 l1 where
    e: "fit_episode ext (a, l) (x, cands, tc) = Inr (a1, l1)" and
    ts1: "training_stats a1 \<noteq> None" and
    mps1: "message_probs_storage l1 = message_probs_storage l @ [last (message_probs_storage l1)]"
      "length (last (message_probs_storage l1)) = nat (max_message_length (config_dict a))"
    by blast
  note ef = fit_episode_frame [OF e]
  from ef have c1: "config_dict a1 = config_dict a" by simp
  from ef Cons.prems(7,8,9) have len1:
    "int (length (batch_training_inputs l1)) = batch_counter l1"
    "length (message_probs_storage l1) = length (batch_training_inputs l1)"
    "length (rewards_storage l1) = length (batch_training_inputs l1)"
    by simp_all
  from ef Cons.prems(10) x have rows1:
    "\<forall>row \<in> set (batch_training_inputs l1). int (length row) = speaker_dim (config_dict a1)"
    using c1 by simp
  have mrows1: "\<forall>row \<in> set (message_probs_storage l1).
           length row = nat (max_message_length (config_dict a1))"
  proof
    fix row
    assume "row \<in> set (message_probs_storage l1)"
    then have "row \<in> set (message_probs_storage l @ [last (message_probs_storage l1)])"
      using mps1(1) by simp
    with Cons.prems(11) mps1(2) c1
    show "length row = nat (max_message_length (config_dict a1))" by auto
  qed
  have "\<exists>a2 l2. fit_train ext (a1, l1) = Inr (a2, l2) \<and> config_dict a2 = config_dict a \<and>
      training_stats a2 \<noteq> None \<and>
      int (length (batch_training_inputs l2)) = batch_counter l2 \<and>
      length (message_probs_storage l2) = length (batch_training_inputs l2) \<and>
      length (rewards_storage l2) = length (batch_training_inputs l2) \<and>
      (\<forall>row \<in> set (batch_training_inputs l2). int (length row) = speaker_dim (config_dict a)) \<and>
      (\<forall>row \<in> set (message_probs_storage l2).
           length row = nat (max_message_length (config_dict a)))"
  proof (cases "batch_counter l1 = batch_size (config_dict a1)")
    case True
    from ef have "batch_training_inputs l1 \<noteq> []" by simp
    from train_returns [OF this rows1 mrows1 len1(2) len1(3) _ Cons.prems(5)] len1(1) True
    obtain a2 where
      t: "train_speaker_policy_on_batch ext a1 (batch_training_inputs l1)
            (message_probs_storage l1) (rewards_storage l1) = Inr a2"
      by auto
    from train_frame [OF t] ts1 c1 have "config_dict a2 = config_dict a"
      "training_stats a2 \<noteq> None" by simp_all
    with t True show ?thesis by (simp add: fit_train_def)
  next
    case False
    with ts1 c1 len1 rows1 mrows1 show ?thesis by (simp add: fit_train_def)
  qed
  then obtain a2 l2 where
    t: "fit_train ext (a1, l1) = Inr (a2, l2)" and c2: "config_dict a2 = config_dict a" and
    inv2: "training_stats a2 \<noteq> None"
      "int (length (batch_training_inputs l2)) = batch_counter l2"
      "length (message_probs_storage l2) = length (batch_training_inputs l2)"
      "length (rewards_storage l2) = length (batch_training_inputs l2)"
      "\<forall>row \<in> set (batch_training_inputs l2). int (length row) = speaker_dim (config_dict a)"
      "\<forall>row \<in> set (message_probs_storage l2).
           length row = nat (max_message_length (config_dict a))"
    by blast
  from Cons.prems(1,2,3) c2 have p:
    "\<forall>ex \<in> set data. int (length (fst ex)) = speaker_dim (config_dict a2) \<and>
             fst (snd ex) \<noteq> []"
    "\<forall>w x. \<exists>probs. model_predict ext w x = Inr probs \<and>
           int (length probs) = alphabet_size (config_dict a2) \<and>
           choice_returns ext (nat (alphabet_size (config_dict a2))) (normalized_probs probs)"
    "0 < alphabet_size (config_dict a2)"
    by simp_all
  from inv2 c2 have q:
    "\<forall>row \<in> set (batch_training_inputs l2). int (length row) = speaker_dim (config_dict a2)"
    "\<forall>row \<in> set (message_probs_storage l2).
           length row = nat (max_message_length (config_dict a2))"
    by simp_all
  from Cons.IH [OF p Cons.prems(4) Cons.prems(5) inv2(1) inv2(2) inv2(3) inv2(4) q]
  obtain st where "fit_loop ext (a2, l2) data = Inr st" by blast
  with e t ex show ?case by simp
qed

lemma fit_returns:
  assumes "\<forall>ex \<in> set data. int (length (fst ex)) = speaker_dim (config_dict a) \<and>
             fst (snd ex) \<noteq> []"
    and "\<forall>w x. \<exists>probs. model_predict ext w x = Inr probs \<and>
           int (length probs) = alphabet_size (config_dict a) \<and>
           choice_returns ext (nat (alphabet_size (config_dict a))) (normalized_probs probs)"
    and "0 < alphabet_size (config_dict a)"
    and "\<forall>g n. 0 < n \<longrightarrow> (\<exists>k g'. random_randint ext g n = Inr (k, g') \<and> k < n)"
    and "\<forall>w X Y. \<exists>w'. model_train_on_batch ext w X Y = Inr w'"
  shows "\<exists>a' l'. fit ext a data = Inr (a', l')"
proof -
  let ?a0 = "a\<lparr>training_stats := Some []\<rparr>"
  let ?l0 = "\<lparr>total_reward = 0, batch_counter = 0, batch_training_inputs = [],
       message_probs_storage = [], rewards_storage = []\<rparr>"
  from assms(1,2,3) have p:
    "\<forall>ex \<in> set data. int (length (fst ex)) = speaker_dim (config_dict ?a0) \<and>
             fst (snd ex) \<noteq> []"
    "\<forall>w x. \<exists>probs. model_predict ext w x = Inr probs \<and>
           int (length probs) = alphabet_size (config_dict ?a0) \<and>
           choice_returns ext (nat (alphabet_size (config_dict ?a0))) (normalized_probs probs)"
    "0 < alphabet_size (config_dict ?a0)"
    by simp_all
  have "\<exists>st. fit_loop ext (?a0, ?l0) data = Inr st"
    by (rule fit_loop_returns [OF p assms(4) assms(5)]) simp_all
  then show ?thesis by (auto simp: fit_def fit_init_def)
qed

section \<open>Lemmas on renormalisation\<close>





section \<open>Renormalisation of the model output\<close>




end
